theory Spec2Isabelle
  imports Main
begin

section \<open>Documents of the store\<close>

text \<open>
  Identifiers are the strings that \<^verbatim>\<open>ObjectId.toString()\<close> yields; the type stands for
  well-formed identifiers, so the cast failure of a malformed one is outside the model.
  Dates are milliseconds since the epoch. The type variable \<open>'n\<close> is the JavaScript
  Number: its arithmetic is never fixed here, the few operations the handlers apply to it
  are fields of the environment record below.
\<close>

type_synonym oid = string
type_synonym date = int

record user_doc =
  user_id :: oid
  user_email :: string
  user_mobileNumber :: string

record host_doc =
  host_id :: oid
  host_email :: string
  host_mobileNumber :: string
  hostType :: string
  isVerified :: bool

record 'n service =
  serviceProvider :: oid
  serviceType :: string
  price :: "'n option"

record 'n eventDetails =
  eventType :: string
  guestCount :: 'n
  startDate :: date
  endDate :: date

record 'n payment =
  totalAmount :: 'n
  advanceAmount :: 'n
  remainingAmount :: 'n
  paymentMethod :: "string option"
  isPaid :: bool
  transactionId :: "string option"
  paymentDate :: "date option"

record notifications =
  emailSent :: bool
  smsSent :: bool
  callMade :: bool

text \<open>
  The Booking schema, restricted to the paths that the handlers read or write. The
  document's own \<^verbatim>\<open>_id\<close> is the key under which the store holds it.
\<close>

record 'n booking =
  user :: oid
  venue :: "oid option"
  services :: "'n service list"
  isServiceOnly :: bool
  eventDetails :: "'n eventDetails"
  payment :: "'n payment"
  status :: string
  notifications :: notifications

section \<open>Outgoing notifications\<close>

text \<open>
  A message is kept as its channel, its recipient, its heading (the subject of an email,
  the literal opening words of an SMS) and the values interpolated into its template, in
  the order of the template.
\<close>

datatype channel = Email | SMS

datatype 'n part =
    Id oid
  | Text string
  | Num 'n
  | NumOpt "'n option"
  | Day date
  | Txn "string option"

record 'n message =
  channel :: channel
  recipient :: string
  heading :: string
  interpolated :: "'n part list"

section \<open>The world the handlers run in\<close>

text \<open>
  \<open>intents\<close> are the payment intents created at the payment provider, \<open>outbox\<close> the
  messages handed to the mail and SMS transports, both in order.
\<close>

record 'n intent =
  amount :: 'n
  currency :: string
  meta_bookingId :: oid
  meta_userId :: oid

record 'n world =
  users :: "oid \<rightharpoonup> user_doc"
  hosts :: "host_doc list"
  bookings :: "oid \<rightharpoonup> 'n booking"
  outbox :: "'n message list"
  intents :: "'n intent list"

text \<open>
  What the handlers use and the repository does not define: the calendar arithmetic of
  \<^verbatim>\<open>d.setMonth(d.getMonth() + 3)\<close>, whether a transport accepts a message (a refused
  message makes \<^verbatim>\<open>sendEmail\<close>/\<^verbatim>\<open>sendSMS\<close> throw), the payment provider's answer to an
  intent (its client secret, or \<open>None\<close> when the call throws), the Number operations
  \<^verbatim>\<open>*\<close>, the literal \<^verbatim>\<open>100\<close> and \<^verbatim>\<open>Math.round\<close>, and the strings a populated user
  or host document renders to.
\<close>

record 'n env =
  setMonth_plus3 :: "date \<Rightarrow> date"
  accepts :: "'n message \<Rightarrow> bool"
  stripe_create :: "'n intent \<Rightarrow> string option"
  js_times :: "'n \<Rightarrow> 'n \<Rightarrow> 'n"
  js_100 :: 'n
  Math_round :: "'n \<Rightarrow> 'n"
  user_toString :: "user_doc \<Rightarrow> string"
  host_toString :: "host_doc \<Rightarrow> string"

record request =
  isHost :: bool
  req_user :: "user_doc option"
  req_host :: "host_doc option"

datatype err = Msg string | Msgs "string list"

datatype failure = Failure (code: nat) (error: err)

datatype exn = TypeError | ValidationError "string list" | Error string

definition server_error :: failure where
  "server_error = Failure 500 (Msg ''Server Error'')"

text \<open>
  The \<^verbatim>\<open>catch\<close> blocks. Every handler answers 500 to an exception it does not name;
  \<^verbatim>\<open>createBooking\<close> alone turns a \<^verbatim>\<open>ValidationError\<close> into a 400 with its messages
  (here: the failing paths).
\<close>

definition catch_any :: "exn \<Rightarrow> failure" where
  "catch_any e = server_error"

definition catch_createBooking :: "exn \<Rightarrow> failure" where
  "catch_createBooking e =
    (case e of ValidationError messages \<Rightarrow> Failure 400 (Msgs messages) | _ \<Rightarrow> server_error)"

definition Host_findById :: "'n world \<Rightarrow> oid \<Rightarrow> host_doc option" where
  "Host_findById w i = find (\<lambda>h. host_id h = i) (hosts w)"

text \<open>
  \<^verbatim>\<open>protect\<close>: the verified token carries an id and the \<^verbatim>\<open>isHost\<close> flag; the principal
  is looked up and may be gone, in which case the request carries no document.
\<close>

definition protect :: "'n world \<Rightarrow> (oid \<times> bool) option \<Rightarrow> failure + request" where
  "protect w decoded =
    (case decoded of
       None \<Rightarrow> Inl (Failure 401 (Msg ''Not authorized to access this route''))
     | Some (i, h) \<Rightarrow>
        if h then Inr \<lparr>isHost = True, req_user = None, req_host = Host_findById w i\<rparr>
        else Inr \<lparr>isHost = False, req_user = users w i, req_host = None\<rparr>)"

section \<open>Saving a booking\<close>

definition serviceType_enum :: "string list" where
  "serviceType_enum = [''catering'', ''decoration'', ''organization'']"

definition eventType_enum :: "string list" where
  "eventType_enum = [''wedding'', ''birthday'', ''corporate'', ''cultural'', ''engagement'', ''other'']"

definition paymentMethod_enum :: "string list" where
  "paymentMethod_enum = [''bank_transfer'', ''upi'', ''online_payment'']"

definition status_enum :: "string list" where
  "status_enum = [''pending'', ''confirmed'', ''cancelled'', ''completed'']"

text \<open>
  The schema's validators on the modelled paths; the result lists the paths that fail.
  Required paths whose type here has no absent value cannot fail.
\<close>

definition validate :: "'n booking \<Rightarrow> string list" where
  "validate b =
    (if venue b = None \<and> \<not> isServiceOnly b then [''venue''] else []) @
    (if list_all (\<lambda>s. serviceType s \<in> set serviceType_enum) (services b) then []
     else [''services.serviceType'']) @
    (if eventType (eventDetails b) \<in> set eventType_enum then [] else [''eventDetails.eventType'']) @
    (case paymentMethod (payment b) of
       None \<Rightarrow> [''payment.paymentMethod'']
     | Some m \<Rightarrow> if m \<in> set paymentMethod_enum then [] else [''payment.paymentMethod'']) @
    (if status b \<in> set status_enum then [] else [''status''])"

text \<open>\<^verbatim>\<open>BookingSchema.pre('save')\<close>, run at clock reading \<open>now\<close>.\<close>

definition pre_save :: "'n env \<Rightarrow> date \<Rightarrow> 'n booking \<Rightarrow> exn + unit" where
  "pre_save env now this =
    (let threeMonthsFromNow = setMonth_plus3 env now in
     if startDate (eventDetails this) > threeMonthsFromNow
     then Inl (Error ''Bookings can only be made up to 3 months in advance'')
     else Inr ())"

text \<open>
  \<^verbatim>\<open>doc.save()\<close>: the built-in validation hook first, then the schema's own hook, then
  the write under the document's id.
\<close>

definition save :: "'n env \<Rightarrow> date \<Rightarrow> 'n world \<Rightarrow> oid \<Rightarrow> 'n booking \<Rightarrow> exn + 'n world" where
  "save env now w i b =
    (case validate b of
       p # ps \<Rightarrow> Inl (ValidationError (p # ps))
     | [] \<Rightarrow>
        (case pre_save env now b of
           Inl e \<Rightarrow> Inl e
         | Inr _ \<Rightarrow> Inr (w\<lparr>bookings := (bookings w)(i \<mapsto> b)\<rparr>)))"

section \<open>Sending a sequence of messages\<close>

text \<open>
  The handlers await each send in turn inside one \<^verbatim>\<open>try\<close>. An attempt is \<open>None\<close> when
  building the message dereferences a document that was not found (a TypeError); the
  first such attempt, or the first message the transport refuses, ends the sequence.
  The result tells whether every attempt went through, and the outbox so far. The
  handlers answer a TypeError and the exception of a transport alike.
\<close>

fun dispatch :: "('m \<Rightarrow> bool) \<Rightarrow> 'm option list \<Rightarrow> 'm list \<Rightarrow> bool \<times> 'm list" where
  "dispatch ok [] out = (True, out)"
| "dispatch ok (None # ms) out = (False, out)"
| "dispatch ok (Some m # ms) out = (if ok m then dispatch ok ms (out @ [m]) else (False, out))"

section \<open>JavaScript expressions that may throw\<close>

text \<open>
  An operand is \<open>None\<close> when evaluating it throws. \<^verbatim>\<open>&&\<close> evaluates its right operand
  only when the left one is true, so a throwing right operand behind a false left one is
  never reached; \<^verbatim>\<open>Array.prototype.some\<close> stops at the first element that satisfies the
  callback.
\<close>

definition js_and :: "bool option \<Rightarrow> bool option \<Rightarrow> bool option" where
  "js_and a b = (case a of None \<Rightarrow> None | Some False \<Rightarrow> Some False | Some True \<Rightarrow> b)"

fun js_some :: "('a \<Rightarrow> bool option) \<Rightarrow> 'a list \<Rightarrow> bool option" where
  "js_some f [] = Some False"
| "js_some f (x # xs) =
    (case f x of None \<Rightarrow> None | Some True \<Rightarrow> Some True | Some False \<Rightarrow> js_some f xs)"

definition js_not :: "bool option \<Rightarrow> bool option" where
  "js_not a = map_option Not a"

text \<open>A string value is truthy when it is present and not empty.\<close>

definition truthy :: "string option \<Rightarrow> bool" where
  "truthy v = (case v of None \<Rightarrow> False | Some s \<Rightarrow> s \<noteq> [])"

definition toUpperCase :: "char \<Rightarrow> char" where
  "toUpperCase c =
    (let k = (of_char c :: nat) in if 97 \<le> k \<and> k \<le> 122 then char_of (k - 32) else c)"

text \<open>\<^verbatim>\<open>status.charAt(0).toUpperCase() + status.slice(1)\<close>\<close>

definition title :: "string \<Rightarrow> string" where
  "title s = (case s of [] \<Rightarrow> [] | c # cs \<Rightarrow> toUpperCase c # cs)"

text \<open>
  The attempts for one party: the document is looked up first, and both of its messages
  dereference it.
\<close>

definition party :: "'d option \<Rightarrow> ('d \<Rightarrow> 'm list) \<Rightarrow> 'm option list" where
  "party d msgs = (case d of None \<Rightarrow> [None] | Some x \<Rightarrow> map Some (msgs x))"

section \<open>Reading a booking\<close>

record 'n populated =
  doc :: "'n booking"
  p_user :: "user_doc option"
  p_venue :: "host_doc option"
  p_providers :: "host_doc option list"

definition populate :: "'n world \<Rightarrow> 'n booking \<Rightarrow> 'n populated" where
  "populate w b =
    \<lparr>doc = b,
     p_user = users w (user b),
     p_venue = (case venue b of None \<Rightarrow> None | Some v \<Rightarrow> Host_findById w v),
     p_providers = map (\<lambda>s. Host_findById w (serviceProvider s)) (services b)\<rparr>"

text \<open>
  The condition guarding the 401 of \<^verbatim>\<open>getBooking\<close>, on the populated booking:
  \<^verbatim>\<open>(!req.isHost && booking.user.toString() !== req.user.id) &&
  (req.isHost && booking.venue.toString() !== req.host.id &&
   !booking.services.some(service => service.serviceProvider.toString() === req.host.id))\<close>
\<close>

definition getBooking_denied :: "'n env \<Rightarrow> request \<Rightarrow> 'n populated \<Rightarrow> bool option" where
  "getBooking_denied env req booking =
    js_and
      (js_and (Some (\<not> isHost req))
        (case p_user booking of
           None \<Rightarrow> None
         | Some pu \<Rightarrow>
            (case req_user req of
               None \<Rightarrow> None
             | Some u \<Rightarrow> Some (user_toString env pu \<noteq> user_id u))))
      (js_and
        (js_and (Some (isHost req))
          (case p_venue booking of
             None \<Rightarrow> None
           | Some pv \<Rightarrow>
              (case req_host req of
                 None \<Rightarrow> None
               | Some h \<Rightarrow> Some (host_toString env pv \<noteq> host_id h))))
        (js_not
          (js_some
            (\<lambda>sp. case sp of
                None \<Rightarrow> None
              | Some d \<Rightarrow>
                 (case req_host req of
                    None \<Rightarrow> None
                  | Some h \<Rightarrow> Some (host_toString env d = host_id h)))
            (p_providers booking))))"

definition getBooking ::
  "'n env \<Rightarrow> 'n world \<Rightarrow> request \<Rightarrow> oid \<Rightarrow> failure + 'n populated" where
  "getBooking env w req i =
    (case bookings w i of
       None \<Rightarrow> Inl (Failure 404 (Msg ''Booking not found''))
     | Some b \<Rightarrow>
        (let booking = populate w b in
         case getBooking_denied env req booking of
           None \<Rightarrow> Inl (catch_any TypeError)
         | Some True \<Rightarrow> Inl (Failure 401 (Msg ''Not authorized to access this booking''))
         | Some False \<Rightarrow> Inr booking))"

text \<open>
  The same condition in \<^verbatim>\<open>getPaymentDetails\<close>, where nothing is populated: the booking
  holds identifiers, and \<^verbatim>\<open>booking.venue\<close> may be absent.
\<close>

definition getPaymentDetails_denied :: "request \<Rightarrow> 'n booking \<Rightarrow> bool option" where
  "getPaymentDetails_denied req booking =
    js_and
      (js_and (Some (\<not> isHost req))
        (case req_user req of
           None \<Rightarrow> None
         | Some u \<Rightarrow> Some (user booking \<noteq> user_id u)))
      (js_and
        (js_and (Some (isHost req))
          (case venue booking of
             None \<Rightarrow> None
           | Some v \<Rightarrow>
              (case req_host req of
                 None \<Rightarrow> None
               | Some h \<Rightarrow> Some (v \<noteq> host_id h))))
        (js_not
          (js_some
            (\<lambda>service. case req_host req of
                None \<Rightarrow> None
              | Some h \<Rightarrow> Some (serviceProvider service = host_id h))
            (services booking))))"

definition getPaymentDetails ::
  "'n world \<Rightarrow> request \<Rightarrow> oid \<Rightarrow> failure + 'n payment" where
  "getPaymentDetails w req bookingId =
    (case bookings w bookingId of
       None \<Rightarrow> Inl (Failure 404 (Msg ''Booking not found''))
     | Some booking \<Rightarrow>
        (case getPaymentDetails_denied req booking of
           None \<Rightarrow> Inl (catch_any TypeError)
         | Some True \<Rightarrow>
            Inl (Failure 401 (Msg ''Not authorized to view payment details for this booking''))
         | Some False \<Rightarrow> Inr (payment booking)))"

section \<open>Updating the status of a booking\<close>

definition status_user_messages ::
  "oid \<Rightarrow> 'n booking \<Rightarrow> string \<Rightarrow> user_doc \<Rightarrow> 'n message list" where
  "status_user_messages i booking status' u =
    [\<lparr>channel = Email, recipient = user_email u,
      heading = ''EventO - Booking '' @ title status',
      interpolated = [Text (title status'), Text status', Id i,
        Text (eventType (eventDetails booking)),
        Day (startDate (eventDetails booking)), Day (endDate (eventDetails booking)),
        Text (title status')]\<rparr>,
     \<lparr>channel = SMS, recipient = user_mobileNumber u,
      heading = ''Your booking (ID: '',
      interpolated = [Id i, Text status']\<rparr>]"

definition status_venue_messages ::
  "oid \<Rightarrow> 'n booking \<Rightarrow> string \<Rightarrow> host_doc \<Rightarrow> 'n message list" where
  "status_venue_messages i booking status' venueHost =
    [\<lparr>channel = Email, recipient = host_email venueHost,
      heading = ''EventO - Booking '' @ title status',
      interpolated = [Text (title status'), Text status', Id i,
        Text (eventType (eventDetails booking)),
        Day (startDate (eventDetails booking)), Day (endDate (eventDetails booking)),
        Text (title status')]\<rparr>,
     \<lparr>channel = SMS, recipient = host_mobileNumber venueHost,
      heading = ''Booking (ID: '',
      interpolated = [Id i, Text status']\<rparr>]"

definition status_service_messages ::
  "oid \<Rightarrow> 'n booking \<Rightarrow> string \<Rightarrow> 'n service \<Rightarrow> host_doc \<Rightarrow> 'n message list" where
  "status_service_messages i booking status' service serviceProvider' =
    [\<lparr>channel = Email, recipient = host_email serviceProvider',
      heading = ''EventO - Service Request '' @ title status',
      interpolated = [Text (title status'), Text (serviceType service), Text status', Id i,
        Text (eventType (eventDetails booking)),
        Day (startDate (eventDetails booking)), Day (endDate (eventDetails booking)),
        Text (title status')]\<rparr>,
     \<lparr>channel = SMS, recipient = host_mobileNumber serviceProvider',
      heading = ''Service request (ID: '',
      interpolated = [Id i, Text (serviceType service), Text status']\<rparr>]"

definition status_attempts ::
  "'n world \<Rightarrow> oid \<Rightarrow> 'n booking \<Rightarrow> string \<Rightarrow> 'n message option list" where
  "status_attempts w i booking status' =
    party (users w (user booking)) (status_user_messages i booking status') @
    (if status' = ''cancelled'' \<or> status' = ''completed'' then
       (case venue booking of
          None \<Rightarrow> []
        | Some v \<Rightarrow> party (Host_findById w v) (status_venue_messages i booking status')) @
       concat (map (\<lambda>service.
          party (Host_findById w (serviceProvider service))
            (status_service_messages i booking status' service)) (services booking))
     else [])"

text \<open>
  The permission check of \<^verbatim>\<open>updateBookingStatus\<close>; \<open>None\<close> lets the request through.
  With no host document on a host request, \<^verbatim>\<open>req.host.id\<close> throws as soon as it is
  evaluated: when the booking has a venue, or when \<^verbatim>\<open>some\<close> runs on a non-empty list.
\<close>

definition check_permission :: "request \<Rightarrow> 'n booking \<Rightarrow> string \<Rightarrow> failure option" where
  "check_permission req booking status' =
    (if isHost req then
       (case req_host req of
          None \<Rightarrow>
            if venue booking = None \<and> services booking = []
            then Some (Failure 401 (Msg ''Not authorized to update this booking''))
            else Some (catch_any TypeError)
        | Some h \<Rightarrow>
           (let isVenueOwner = (case venue booking of None \<Rightarrow> False | Some v \<Rightarrow> v = host_id h);
                isServiceProvider =
                  list_ex (\<lambda>service. serviceProvider service = host_id h) (services booking)
            in if \<not> isVenueOwner \<and> \<not> isServiceProvider
               then Some (Failure 401 (Msg ''Not authorized to update this booking''))
               else None))
     else
       (case req_user req of
          None \<Rightarrow> Some (catch_any TypeError)
        | Some u \<Rightarrow>
           if user booking \<noteq> user_id u
           then Some (Failure 401 (Msg ''Not authorized to update this booking''))
           else if status' \<noteq> ''cancelled''
           then Some (Failure 403 (Msg ''Users can only cancel bookings''))
           else None))"

definition updateBookingStatus ::
  "'n env \<Rightarrow> date \<Rightarrow> 'n world \<Rightarrow> request \<Rightarrow> oid \<Rightarrow> string option
    \<Rightarrow> (failure + 'n booking) \<times> 'n world" where
  "updateBookingStatus env now w req i body_status =
    (case body_status of
       None \<Rightarrow>
        (Inl (Failure 400
           (Msg ''Please provide a valid status (confirmed, cancelled, or completed)'')), w)
     | Some status' \<Rightarrow>
        if status' = [] \<or> status' \<notin> set [''confirmed'', ''cancelled'', ''completed'']
        then (Inl (Failure 400
           (Msg ''Please provide a valid status (confirmed, cancelled, or completed)'')), w)
        else
          (case bookings w i of
             None \<Rightarrow> (Inl (Failure 404 (Msg ''Booking not found'')), w)
           | Some booking \<Rightarrow>
              (case check_permission req booking status' of
                 Some f \<Rightarrow> (Inl f, w)
               | None \<Rightarrow>
                  (let booking' = booking\<lparr>status := status'\<rparr> in
                   case save env now w i booking' of
                     Inl e \<Rightarrow> (Inl (catch_any e), w)
                   | Inr w' \<Rightarrow>
                      (case dispatch (accepts env)
                              (status_attempts w' i booking' status') (outbox w') of
                         (False, out) \<Rightarrow> (Inl (catch_any TypeError), w'\<lparr>outbox := out\<rparr>)
                       | (True, out) \<Rightarrow> (Inr booking', w'\<lparr>outbox := out\<rparr>))))))"


section \<open>Payments\<close>

text \<open>
  \<^verbatim>\<open>Booking.findById\<close> on an identifier that the request may not carry; the document
  comes with its \<^verbatim>\<open>_id\<close>.
\<close>

definition Booking_findById :: "'n world \<Rightarrow> oid option \<Rightarrow> (oid \<times> 'n booking) option" where
  "Booking_findById w i =
    (case i of None \<Rightarrow> None | Some k \<Rightarrow> map_option (Pair k) (bookings w k))"

text \<open>
  \<^verbatim>\<open>createPaymentIntent\<close>, with the two fields of the request body as arguments. An
  intent is appended to the provider's list only when the provider call returns.
\<close>

definition createPaymentIntent ::
  "'n env \<Rightarrow> 'n world \<Rightarrow> request \<Rightarrow> oid option \<Rightarrow> string option
    \<Rightarrow> (failure + string) \<times> 'n world" where
  "createPaymentIntent env w req bookingId paymentMethod' =
    (if isHost req then (Inl (Failure 403 (Msg ''Hosts cannot make payments'')), w)
     else
       (case Booking_findById w bookingId of
          None \<Rightarrow> (Inl (Failure 404 (Msg ''Booking not found'')), w)
        | Some (booking_id, booking) \<Rightarrow>
           (case req_user req of
              None \<Rightarrow> (Inl (catch_any TypeError), w)
            | Some u \<Rightarrow>
               if user booking \<noteq> user_id u
               then (Inl (Failure 401
                      (Msg ''Not authorized to make payment for this booking'')), w)
               else if isPaid (payment booking)
               then (Inl (Failure 400 (Msg ''Booking is already paid'')), w)
               else if paymentMethod' \<noteq> Some ''online_payment''
               then (Inl (Failure 400 (Msg ''This endpoint is only for online payments'')), w)
               else
                 (let paymentIntent =
                    \<lparr>amount = Math_round env
                        (js_times env (advanceAmount (payment booking)) (js_100 env)),
                     currency = ''inr'',
                     meta_bookingId = booking_id,
                     meta_userId = user_id u\<rparr>
                  in case stripe_create env paymentIntent of
                       None \<Rightarrow> (Inl (catch_any (Error ''stripe'')), w)
                     | Some client_secret \<Rightarrow>
                        (Inr client_secret, w\<lparr>intents := intents w @ [paymentIntent]\<rparr>)))))"

definition confirm_user_messages ::
  "oid \<Rightarrow> 'n booking \<Rightarrow> string option \<Rightarrow> user_doc \<Rightarrow> 'n message list" where
  "confirm_user_messages i booking transactionId' u =
    [\<lparr>channel = Email, recipient = user_email u,
      heading = ''EventO - Payment Confirmation'',
      interpolated = [Id i, Text (eventType (eventDetails booking)),
        Day (startDate (eventDetails booking)), Day (endDate (eventDetails booking)),
        Num (advanceAmount (payment booking)), Txn transactionId']\<rparr>,
     \<lparr>channel = SMS, recipient = user_mobileNumber u,
      heading = ''Payment confirmed for booking ID: '',
      interpolated = [Id i, Num (advanceAmount (payment booking)), Txn transactionId']\<rparr>]"

definition confirm_venue_messages ::
  "oid \<Rightarrow> 'n booking \<Rightarrow> string option \<Rightarrow> host_doc \<Rightarrow> 'n message list" where
  "confirm_venue_messages i booking transactionId' venueHost =
    [\<lparr>channel = Email, recipient = host_email venueHost,
      heading = ''EventO - Booking Payment Received'',
      interpolated = [Id i, Text (eventType (eventDetails booking)),
        Day (startDate (eventDetails booking)), Day (endDate (eventDetails booking)),
        Num (advanceAmount (payment booking)), Txn transactionId']\<rparr>,
     \<lparr>channel = SMS, recipient = host_mobileNumber venueHost,
      heading = ''Payment received for booking ID: '',
      interpolated = [Id i, Num (advanceAmount (payment booking))]\<rparr>]"

definition confirm_service_messages ::
  "oid \<Rightarrow> 'n booking \<Rightarrow> string option \<Rightarrow> 'n service \<Rightarrow> host_doc \<Rightarrow> 'n message list" where
  "confirm_service_messages i booking transactionId' service serviceProvider' =
    [\<lparr>channel = Email, recipient = host_email serviceProvider',
      heading = ''EventO - Service Payment Received'',
      interpolated = [Text (serviceType service), Id i,
        Text (eventType (eventDetails booking)),
        Day (startDate (eventDetails booking)), Day (endDate (eventDetails booking)),
        NumOpt (price service), Txn transactionId']\<rparr>,
     \<lparr>channel = SMS, recipient = host_mobileNumber serviceProvider',
      heading = ''Payment received for service booking ID: '',
      interpolated = [Id i, NumOpt (price service)]\<rparr>]"

definition confirm_attempts ::
  "'n world \<Rightarrow> user_doc \<Rightarrow> oid \<Rightarrow> 'n booking \<Rightarrow> string option \<Rightarrow> 'n message option list" where
  "confirm_attempts w u i booking transactionId' =
    party (users w (user_id u)) (confirm_user_messages i booking transactionId') @
    (case venue booking of
       None \<Rightarrow> []
     | Some v \<Rightarrow> party (Host_findById w v) (confirm_venue_messages i booking transactionId')) @
    concat (map (\<lambda>service.
       party (Host_findById w (serviceProvider service))
         (confirm_service_messages i booking transactionId' service)) (services booking))"

text \<open>
  \<^verbatim>\<open>confirmPayment\<close>, with the three fields of the request body as arguments.
  \<open>payDate\<close> is the reading of \<^verbatim>\<open>Date.now()\<close>, \<open>saveDate\<close> the later reading taken by the
  save hook.
\<close>

definition confirmPayment ::
  "'n env \<Rightarrow> date \<Rightarrow> date \<Rightarrow> 'n world \<Rightarrow> request \<Rightarrow> oid option \<Rightarrow> string option
    \<Rightarrow> string option \<Rightarrow> (failure + 'n booking) \<times> 'n world" where
  "confirmPayment env payDate saveDate w req bookingId transactionId' paymentMethod' =
    (if isHost req then (Inl (Failure 403 (Msg ''Hosts cannot confirm payments'')), w)
     else
       (case Booking_findById w bookingId of
          None \<Rightarrow> (Inl (Failure 404 (Msg ''Booking not found'')), w)
        | Some (booking_id, booking) \<Rightarrow>
           (case req_user req of
              None \<Rightarrow> (Inl (catch_any TypeError), w)
            | Some u \<Rightarrow>
               if user booking \<noteq> user_id u
               then (Inl (Failure 401
                      (Msg ''Not authorized to confirm payment for this booking'')), w)
               else if isPaid (payment booking)
               then (Inl (Failure 400 (Msg ''Booking is already paid'')), w)
               else
                 (let booking' = booking
                        \<lparr>payment := (payment booking)
                           \<lparr>isPaid := True,
                            transactionId := transactionId',
                            paymentDate := Some payDate,
                            paymentMethod := paymentMethod'\<rparr>,
                         status := ''confirmed''\<rparr>
                  in case save env saveDate w booking_id booking' of
                       Inl e \<Rightarrow> (Inl (catch_any e), w)
                     | Inr w' \<Rightarrow>
                        (case dispatch (accepts env)
                                (confirm_attempts w' u booking_id booking' transactionId')
                                (outbox w') of
                           (False, out) \<Rightarrow> (Inl (catch_any TypeError), w'\<lparr>outbox := out\<rparr>)
                         | (True, out) \<Rightarrow> (Inr booking', w'\<lparr>outbox := out\<rparr>))))))"

text \<open>
  \<^verbatim>\<open>stripeWebhook\<close>. The event is \<open>None\<close> when the signature check throws; the text of
  the 400 then ends with the message of that exception, which is left out. An exception
  while the booking is processed is caught and logged, and the event is acknowledged all
  the same. No message is sent on this path.
\<close>

record event =
  event_type :: string
  paymentIntent_id :: string
  metadata_bookingId :: "oid option"

definition stripeWebhook ::
  "'n env \<Rightarrow> date \<Rightarrow> date \<Rightarrow> 'n world \<Rightarrow> event option \<Rightarrow> (failure + unit) \<times> 'n world" where
  "stripeWebhook env payDate saveDate w ev =
    (case ev of
       None \<Rightarrow> (Inl (Failure 400 (Msg ''Webhook Error'')), w)
     | Some e \<Rightarrow>
        if event_type e = ''payment_intent.succeeded'' \<and> truthy (metadata_bookingId e)
        then
          (case Booking_findById w (metadata_bookingId e) of
             None \<Rightarrow> (Inr (), w)
           | Some (booking_id, booking) \<Rightarrow>
              if \<not> isPaid (payment booking)
              then
                (let booking' = booking
                       \<lparr>payment := (payment booking)
                          \<lparr>isPaid := True,
                           transactionId := Some (paymentIntent_id e),
                           paymentDate := Some payDate\<rparr>,
                        status := ''confirmed''\<rparr>
                 in case save env saveDate w booking_id booking' of
                      Inl _ \<Rightarrow> (Inr (), w)
                    | Inr w' \<Rightarrow> (Inr (), w'))
              else (Inr (), w))
        else (Inr (), w))"


section \<open>Creating a booking\<close>

record 'n create_body =
  body_venue :: "oid option"
  body_services :: "'n service list option"
  body_eventDetails :: "'n eventDetails"
  body_payment :: "'n payment"

text \<open>\<^verbatim>\<open>Host.findOne({ _id, hostType, isVerified: true })\<close>\<close>

definition Host_findOne :: "'n world \<Rightarrow> oid \<Rightarrow> string \<Rightarrow> host_doc option" where
  "Host_findOne w i t = find (\<lambda>h. host_id h = i \<and> hostType h = t \<and> isVerified h) (hosts w)"

definition provider_hostType :: "string \<Rightarrow> string" where
  "provider_hostType t =
    (if t = ''catering'' then ''caterer''
     else if t = ''decoration'' then ''decorator'' else ''organizer'')"

text \<open>The loop over the requested services: the first one whose provider is not found.\<close>

fun unresolved_service :: "'n world \<Rightarrow> 'n service list \<Rightarrow> 'n service option" where
  "unresolved_service w [] = None"
| "unresolved_service w (service # rest) =
    (case Host_findOne w (serviceProvider service) (provider_hostType (serviceType service)) of
       None \<Rightarrow> Some service
     | Some _ \<Rightarrow> unresolved_service w rest)"

definition create_user_messages ::
  "oid \<Rightarrow> 'n create_body \<Rightarrow> user_doc \<Rightarrow> 'n message list" where
  "create_user_messages i body u =
    [\<lparr>channel = Email, recipient = user_email u,
      heading = ''EventO - Booking Confirmation'',
      interpolated = [Id i, Text (eventType (body_eventDetails body)),
        Day (startDate (body_eventDetails body)), Day (endDate (body_eventDetails body)),
        Num (totalAmount (body_payment body))]\<rparr>,
     \<lparr>channel = SMS, recipient = user_mobileNumber u,
      heading = ''Your booking with EventO (ID: '',
      interpolated = [Id i, Num (totalAmount (body_payment body))]\<rparr>]"

definition create_venue_messages ::
  "oid \<Rightarrow> 'n create_body \<Rightarrow> host_doc \<Rightarrow> 'n message list" where
  "create_venue_messages i body venueHost =
    [\<lparr>channel = Email, recipient = host_email venueHost,
      heading = ''EventO - New Booking Request'',
      interpolated = [Id i, Text (eventType (body_eventDetails body)),
        Day (startDate (body_eventDetails body)), Day (endDate (body_eventDetails body)),
        Num (guestCount (body_eventDetails body))]\<rparr>,
     \<lparr>channel = SMS, recipient = host_mobileNumber venueHost,
      heading = ''New booking request (ID: '',
      interpolated = [Id i, Text (eventType (body_eventDetails body)),
        Day (startDate (body_eventDetails body)),
        Num (guestCount (body_eventDetails body))]\<rparr>]"

definition create_service_messages ::
  "oid \<Rightarrow> 'n create_body \<Rightarrow> 'n service \<Rightarrow> host_doc \<Rightarrow> 'n message list" where
  "create_service_messages i body service serviceProvider' =
    [\<lparr>channel = Email, recipient = host_email serviceProvider',
      heading = ''EventO - New Service Request'',
      interpolated = [Text (serviceType service), Id i,
        Text (eventType (body_eventDetails body)),
        Day (startDate (body_eventDetails body)), Day (endDate (body_eventDetails body)),
        Num (guestCount (body_eventDetails body))]\<rparr>,
     \<lparr>channel = SMS, recipient = host_mobileNumber serviceProvider',
      heading = ''New '',
      interpolated = [Text (serviceType service), Id i,
        Text (eventType (body_eventDetails body)),
        Day (startDate (body_eventDetails body)),
        Num (guestCount (body_eventDetails body))]\<rparr>]"

definition create_attempts ::
  "'n world \<Rightarrow> user_doc \<Rightarrow> oid \<Rightarrow> 'n create_body \<Rightarrow> 'n message option list" where
  "create_attempts w u i body =
    party (users w (user_id u)) (create_user_messages i body) @
    (case body_venue body of
       None \<Rightarrow> []
     | Some v \<Rightarrow>
        if v = [] then [] else party (Host_findById w v) (create_venue_messages i body)) @
    (case body_services body of
       None \<Rightarrow> []
     | Some ss \<Rightarrow>
        concat (map (\<lambda>service.
          party (Host_findById w (serviceProvider service))
            (create_service_messages i body service)) ss))"

text \<open>
  \<^verbatim>\<open>createBooking\<close>. The clock is read three times: by the handler's own check
  (\<open>checkDate\<close>), by the save hook inside \<^verbatim>\<open>Booking.create\<close> (\<open>createDate\<close>) and by the save
  hook of the final \<^verbatim>\<open>booking.save()\<close> (\<open>saveDate\<close>). \<open>new_id\<close> is the identifier the
  store gives the new document.
\<close>

definition createBooking ::
  "'n env \<Rightarrow> date \<Rightarrow> date \<Rightarrow> date \<Rightarrow> oid \<Rightarrow> 'n world \<Rightarrow> request \<Rightarrow> 'n create_body
    \<Rightarrow> (failure + 'n booking) \<times> 'n world" where
  "createBooking env checkDate createDate saveDate new_id w req body =
    (if isHost req then (Inl (Failure 403 (Msg ''Hosts cannot create bookings'')), w)
     else
       (let venue' = body_venue body;
            services' = body_services body;
            isServiceOnly' =
              (\<not> truthy venue' \<and> (case services' of None \<Rightarrow> False | Some ss \<Rightarrow> ss \<noteq> []))
        in
        if (case venue' of
              None \<Rightarrow> False
            | Some v \<Rightarrow> v \<noteq> [] \<and> Host_findOne w v ''venue'' = None)
        then (Inl (Failure 404 (Msg ''Venue not found or not verified'')), w)
        else
          (case unresolved_service w (case services' of None \<Rightarrow> [] | Some ss \<Rightarrow> ss) of
             Some service \<Rightarrow>
               (Inl (Failure 404 (Msg (''Service provider not found or not verified: ''
                  @ serviceProvider service))), w)
           | None \<Rightarrow>
              (let threeMonthsFromNow = setMonth_plus3 env checkDate in
               if startDate (body_eventDetails body) > threeMonthsFromNow
               then (Inl (Failure 400
                      (Msg ''Bookings can only be made up to 3 months in advance'')), w)
               else
                 (case req_user req of
                    None \<Rightarrow> (Inl (catch_createBooking TypeError), w)
                  | Some u \<Rightarrow>
                     (let booking =
                        \<lparr>user = user_id u,
                         venue = (if truthy venue' then venue' else None),
                         services = (case services' of None \<Rightarrow> [] | Some ss \<Rightarrow> ss),
                         isServiceOnly = isServiceOnly',
                         eventDetails = body_eventDetails body,
                         payment = body_payment body,
                         status = ''pending'',
                         notifications =
                           \<lparr>emailSent = False, smsSent = False, callMade = False\<rparr>\<rparr>
                      in case save env createDate w new_id booking of
                           Inl e \<Rightarrow> (Inl (catch_createBooking e), w)
                         | Inr w' \<Rightarrow>
                            (case dispatch (accepts env)
                                    (create_attempts w' u new_id body) (outbox w') of
                               (False, out) \<Rightarrow>
                                 (Inl (catch_createBooking TypeError), w'\<lparr>outbox := out\<rparr>)
                             | (True, out) \<Rightarrow>
                                (let booking' = booking
                                       \<lparr>notifications :=
                                          \<lparr>emailSent = True, smsSent = True,
                                           callMade = False\<rparr>\<rparr>
                                 in case save env saveDate (w'\<lparr>outbox := out\<rparr>)
                                           new_id booking' of
                                      Inl e \<Rightarrow>
                                        (Inl (catch_createBooking e), w'\<lparr>outbox := out\<rparr>)
                                    | Inr w'' \<Rightarrow> (Inr booking', w'')))))))))"


section \<open>Listing hosts\<close>

text \<open>
  \<^verbatim>\<open>parseInt(string, radix)\<close> on a query parameter that may be absent; \<open>None\<close> is NaN.
  Leading (ASCII) white space is skipped, a sign is read, and the longest run of digits of
  the radix is taken. Without a radix, a \<^verbatim>\<open>0x\<close> prefix selects 16 and anything else 10; the
  handlers pass either 10 or nothing. Integers are unbounded here, so the loss of precision
  of a Number above \<open>2 ^ 53\<close> is not modelled.
\<close>

definition js_whitespace :: "char \<Rightarrow> bool" where
  "js_whitespace c = ((of_char c :: nat) \<in> {9, 10, 11, 12, 13, 32})"

definition digit_value :: "char \<Rightarrow> nat option" where
  "digit_value c =
    (let k = (of_char c :: nat) in
     if 48 \<le> k \<and> k \<le> 57 then Some (k - 48)
     else if 97 \<le> k \<and> k \<le> 122 then Some (k - 87)
     else if 65 \<le> k \<and> k \<le> 90 then Some (k - 55)
     else None)"

fun parse_digits :: "nat \<Rightarrow> string \<Rightarrow> nat option \<Rightarrow> nat option" where
  "parse_digits r [] acc = acc"
| "parse_digits r (c # cs) acc =
    (case digit_value c of
       None \<Rightarrow> acc
     | Some d \<Rightarrow>
        if d < r
        then parse_digits r cs (Some (r * (case acc of None \<Rightarrow> 0 | Some a \<Rightarrow> a) + d))
        else acc)"

definition parseInt :: "string option \<Rightarrow> nat option \<Rightarrow> int option" where
  "parseInt v radix =
    (case v of
       None \<Rightarrow> None
     | Some s \<Rightarrow>
        (let s1 = dropWhile js_whitespace s;
             negative = (case s1 of c # _ \<Rightarrow> c = CHR ''-'' | [] \<Rightarrow> False);
             s2 = (case s1 of
                     c # cs \<Rightarrow> if c = CHR ''-'' \<or> c = CHR ''+'' then cs else s1
                   | [] \<Rightarrow> []);
             hex = (radix = None \<and> (take 2 s2 = ''0x'' \<or> take 2 s2 = ''0X''));
             r = (case radix of None \<Rightarrow> if hex then 16 else 10 | Some k \<Rightarrow> k);
             s3 = (if hex then drop 2 s2 else s2)
         in map_option (\<lambda>k. if negative then - int k else int k) (parse_digits r s3 None)))"

text \<open>\<^verbatim>\<open>parseInt(...) || d\<close>: NaN and zero are falsy.\<close>

definition or_default :: "int option \<Rightarrow> int \<Rightarrow> int" where
  "or_default v d = (case v of None \<Rightarrow> d | Some k \<Rightarrow> if k = 0 then d else k)"

text \<open>\<^verbatim>\<open>s.split(',')\<close>\<close>

fun split_comma :: "string \<Rightarrow> string list" where
  "split_comma [] = [[]]"
| "split_comma (c # cs) =
    (if c = CHR '','' then [] # split_comma cs
     else (case split_comma cs of [] \<Rightarrow> [[c]] | x # xs \<Rightarrow> (c # x) # xs))"

text \<open>
  The query object the handlers build. Its evaluation belongs to the store and is not part
  of the repository: the handlers below take it as the function \<open>found\<close>, which gives
  the documents of the Host collection that satisfy a query, in the store's order, or
  \<open>None\<close> when the store rejects the query.
\<close>

record host_query =
  q_hostType :: "string list"
  q_venueType :: "string option"
  q_city_regex :: "string option"
  q_maxGuestCapacity_gte :: "int option option"
  q_services_in :: "string list option"

record listing_params =
  param_type :: "string option"
  param_venueType :: "string option"
  param_city :: "string option"
  param_minCapacity :: "string option"
  param_services :: "string option"
  param_page :: "string option"
  param_limit :: "string option"

record page_ref =
  page :: int
  limit :: int

record listing =
  count :: nat
  pagination_next :: "page_ref option"
  pagination_prev :: "page_ref option"
  data :: "host_doc list"

text \<open>
  The pagination block, which \<^verbatim>\<open>getVenues\<close> and \<^verbatim>\<open>getServiceProviders\<close> both contain
  word for word. The store rejects a negative \<^verbatim>\<open>skip\<close>, and reads a negative \<^verbatim>\<open>limit\<close>
  as its absolute value.
\<close>

definition paginate ::
  "host_doc list option \<Rightarrow> string option \<Rightarrow> string option \<Rightarrow> failure + listing" where
  "paginate matching page_param limit_param =
    (let page' = or_default (parseInt page_param (Some 10)) 1;
         limit' = or_default (parseInt limit_param (Some 10)) 10;
         startIndex = (page' - 1) * limit';
         endIndex = page' * limit'
     in case matching of
          None \<Rightarrow> Inl (catch_any (Error ''query''))
        | Some ms \<Rightarrow>
           (let total = int (length ms) in
            if startIndex < 0 then Inl (catch_any (Error ''skip''))
            else
              (let docs = take (nat \<bar>limit'\<bar>) (drop (nat startIndex) ms) in
               Inr \<lparr>count = length docs,
                    pagination_next =
                      (if endIndex < total then Some \<lparr>page = page' + 1, limit = limit'\<rparr>
                       else None),
                    pagination_prev =
                      (if startIndex > 0 then Some \<lparr>page = page' - 1, limit = limit'\<rparr>
                       else None),
                    data = docs\<rparr>)))"

definition venues_query :: "listing_params \<Rightarrow> host_query" where
  "venues_query q =
    \<lparr>q_hostType = [''venue''],
     q_venueType = (if truthy (param_venueType q) then param_venueType q else None),
     q_city_regex = (if truthy (param_city q) then param_city q else None),
     q_maxGuestCapacity_gte =
       (if truthy (param_minCapacity q) then Some (parseInt (param_minCapacity q) None)
        else None),
     q_services_in =
       (case param_services q of
          None \<Rightarrow> None
        | Some s \<Rightarrow> if s = [] then None else Some (split_comma s))\<rparr>"

definition getVenues ::
  "(host_query \<Rightarrow> host_doc list option) \<Rightarrow> listing_params \<Rightarrow> failure + listing" where
  "getVenues found q = paginate (found (venues_query q)) (param_page q) (param_limit q)"

definition providers_query :: "listing_params \<Rightarrow> host_query" where
  "providers_query q =
    \<lparr>q_hostType =
       (case param_type q of
          None \<Rightarrow> [''caterer'', ''decorator'', ''organizer'']
        | Some t \<Rightarrow>
           if t \<noteq> [] \<and> t \<in> set [''caterer'', ''decorator'', ''organizer''] then [t]
           else [''caterer'', ''decorator'', ''organizer'']),
     q_venueType = None,
     q_city_regex = (if truthy (param_city q) then param_city q else None),
     q_maxGuestCapacity_gte = None,
     q_services_in =
       (case param_services q of
          None \<Rightarrow> None
        | Some s \<Rightarrow> if s = [] then None else Some (split_comma s))\<rparr>"

definition getServiceProviders ::
  "(host_query \<Rightarrow> host_doc list option) \<Rightarrow> listing_params \<Rightarrow> failure + listing" where
  "getServiceProviders found q =
    paginate (found (providers_query q)) (param_page q) (param_limit q)"


section \<open>A concrete world\<close>

text \<open>
  One user, three hosts and one booking, with Number read as \<open>int\<close>, three months as
  ninety days, transports that accept every message and a provider that answers every
  intent. The booking is pending and unpaid, at the venue \<open>h1\<close> with catering by \<open>h2\<close>;
  the host \<open>h3\<close> has no part in it.
\<close>

definition demo_env :: "int env" where
  "demo_env =
    \<lparr>setMonth_plus3 = (\<lambda>t. t + 7776000000),
     accepts = (\<lambda>m. True),
     stripe_create = (\<lambda>p. Some ''secret''),
     js_times = (\<lambda>a b. a * b),
     js_100 = 100,
     Math_round = (\<lambda>a. a),
     user_toString = user_email,
     host_toString = host_email\<rparr>"

definition alice :: user_doc where
  "alice = \<lparr>user_id = ''u1'', user_email = ''alice@example.com'', user_mobileNumber = ''111''\<rparr>"

definition hall :: host_doc where
  "hall = \<lparr>host_id = ''h1'', host_email = ''hall@example.com'', host_mobileNumber = ''221'',
     hostType = ''venue'', isVerified = True\<rparr>"

definition cook :: host_doc where
  "cook = \<lparr>host_id = ''h2'', host_email = ''cook@example.com'', host_mobileNumber = ''222'',
     hostType = ''caterer'', isVerified = True\<rparr>"

definition florist :: host_doc where
  "florist = \<lparr>host_id = ''h3'', host_email = ''florist@example.com'',
     host_mobileNumber = ''223'', hostType = ''decorator'', isVerified = True\<rparr>"

definition demo_booking :: "int booking" where
  "demo_booking =
    \<lparr>user = ''u1'',
     venue = Some ''h1'',
     services = [\<lparr>serviceProvider = ''h2'', serviceType = ''catering'', price = Some 300\<rparr>],
     isServiceOnly = False,
     eventDetails =
       \<lparr>eventType = ''wedding'', guestCount = 80, startDate = 864000000, endDate = 950400000\<rparr>,
     payment =
       \<lparr>totalAmount = 1000, advanceAmount = 500, remainingAmount = 500,
        paymentMethod = Some ''upi'', isPaid = False, transactionId = None,
        paymentDate = None\<rparr>,
     status = ''pending'',
     notifications = \<lparr>emailSent = True, smsSent = True, callMade = False\<rparr>\<rparr>"

definition demo_world :: "int world" where
  "demo_world =
    \<lparr>users = [''u1'' \<mapsto> alice],
     hosts = [hall, cook, florist],
     bookings = [''b1'' \<mapsto> demo_booking],
     outbox = [],
     intents = []\<rparr>"

definition as_user :: "user_doc \<Rightarrow> request" where
  "as_user u = \<lparr>isHost = False, req_user = Some u, req_host = None\<rparr>"

definition as_host :: "host_doc \<Rightarrow> request" where
  "as_host h = \<lparr>isHost = True, req_user = None, req_host = Some h\<rparr>"

text \<open>The same world with the booking in another status.\<close>

definition world_with_status :: "string \<Rightarrow> int world" where
  "world_with_status s = demo_world\<lparr>bookings := [''b1'' \<mapsto> demo_booking\<lparr>status := s\<rparr>]\<rparr>"


text \<open>Fifteen venues, a store that finds them for every query, and a request for page 2 of 10.\<close>

definition fifteen_hosts :: "host_doc list" where
  "fifteen_hosts = map (\<lambda>k. hall\<lparr>host_id := replicate (Suc k) (CHR ''v'')\<rparr>) [0..<15]"

definition found_fifteen :: "host_query \<Rightarrow> host_doc list option" where
  "found_fifteen q = Some fifteen_hosts"

definition page2_limit10 :: listing_params where
  "page2_limit10 =
    \<lparr>param_type = None, param_venueType = None, param_city = None, param_minCapacity = None,
     param_services = None, param_page = Some ''2'', param_limit = Some ''10''\<rparr>"

text \<open>
  A booking that starts one millisecond after the ninety days counted from the clock
  reading 0, and a creation request for it.
\<close>

definition far_booking :: "int booking" where
  "far_booking =
    demo_booking\<lparr>eventDetails := (eventDetails demo_booking)\<lparr>startDate := 7776000001\<rparr>\<rparr>"

definition far_body :: "int create_body" where
  "far_body =
    \<lparr>body_venue = Some ''h1'',
     body_services = None,
     body_eventDetails = eventDetails far_booking,
     body_payment = payment demo_booking\<rparr>"

section \<open>Notions used in the statements\<close>

text \<open>
  A host is referenced by a booking when it is its venue or the provider of one of its
  services: the disjunction of \<^verbatim>\<open>isVenueOwner\<close> and \<^verbatim>\<open>isServiceProvider\<close>.
\<close>

definition references :: "'n booking \<Rightarrow> oid \<Rightarrow> bool" where
  "references b h =
    (venue b = Some h \<or> list_ex (\<lambda>service. serviceProvider service = h) (services b))"

text \<open>The documents of every party of a booking are in the store.\<close>

definition parties_found :: "'n world \<Rightarrow> 'n booking \<Rightarrow> bool" where
  "parties_found w b =
    (users w (user b) \<noteq> None \<and>
     (case venue b of None \<Rightarrow> True | Some v \<Rightarrow> Host_findById w v \<noteq> None) \<and>
     list_all (\<lambda>service. Host_findById w (serviceProvider service) \<noteq> None) (services b))"

text \<open>The booking as \<^verbatim>\<open>confirmPayment\<close> rewrites it.\<close>

definition paid ::
  "'n booking \<Rightarrow> string option \<Rightarrow> date \<Rightarrow> string option \<Rightarrow> 'n booking" where
  "paid b transactionId' payDate paymentMethod' =
    b\<lparr>payment := (payment b)
         \<lparr>isPaid := True,
          transactionId := transactionId',
          paymentDate := Some payDate,
          paymentMethod := paymentMethod'\<rparr>,
      status := ''confirmed''\<rparr>"


section \<open>Sending and saving: auxiliary facts\<close>

lemma dispatch_Some:
  "\<forall>m \<in> set ms. ok m \<Longrightarrow> dispatch ok (map Some ms) out = (True, out @ ms)"
  by (induction ms arbitrary: out) simp_all

lemma validate_paid:
  "validate b = [] \<Longrightarrow> m \<in> set paymentMethod_enum \<Longrightarrow> validate (paid b tx d (Some m)) = []"
  by (simp add: validate_def paid_def status_enum_def split: if_splits option.splits)

lemma concat_party:
  "\<forall>x \<in> set xs. look x \<noteq> None \<Longrightarrow>
    concat (map (\<lambda>x. party (look x) (f x)) xs) =
    map Some (concat (map (\<lambda>x. f x (the (look x))) xs))"
  by (induction xs) (auto simp: party_def)

lemma party_found: "d \<noteq> None \<Longrightarrow> party d f = map Some (f (the d))"
  by (auto simp: party_def)

lemma confirm_attempts_found:
  assumes "parties_found w b" "user b = user_id u"
    and "venue b' = venue b" "services b' = services b"
  shows "confirm_attempts (w\<lparr>bookings := bs\<rparr>) u i b' tx =
    map Some
      (confirm_user_messages i b' tx (the (users w (user b))) @
       (case venue b of
          None \<Rightarrow> []
        | Some v \<Rightarrow> confirm_venue_messages i b' tx (the (Host_findById w v))) @
       concat (map (\<lambda>service.
          confirm_service_messages i b' tx service
            (the (Host_findById w (serviceProvider service)))) (services b)))"
proof -
  have hf: "\<And>x. Host_findById (w\<lparr>bookings := bs\<rparr>) x = Host_findById w x"
    by (simp add: Host_findById_def)
  have "\<forall>service \<in> set (services b). Host_findById w (serviceProvider service) \<noteq> None"
    using assms(1) by (simp add: parties_found_def list_all_iff)
  then have s: "concat (map (\<lambda>service.
       party (Host_findById w (serviceProvider service))
         (confirm_service_messages i b' tx service)) (services b))
     = map Some (concat (map (\<lambda>service.
          confirm_service_messages i b' tx service
            (the (Host_findById w (serviceProvider service)))) (services b)))"
    by (rule concat_party [where look = "\<lambda>service. Host_findById w (serviceProvider service)"
          and f = "confirm_service_messages i b' tx"])
  have u: "users w (user_id u) \<noteq> None"
    and v: "\<And>x. venue b = Some x \<Longrightarrow> Host_findById w x \<noteq> None"
    using assms(1,2) by (auto simp: parties_found_def)
  show ?thesis
    unfolding confirm_attempts_def
    by (cases "venue b") (simp_all add: hf s u v party_found assms(2,3,4))
qed

lemma confirmPayment_unpaid:
  assumes "bookings w i = Some b" "\<not> isPaid (payment b)"
    and "\<not> isHost req" "req_user req = Some u" "user b = user_id u"
  shows "confirmPayment env payDate saveDate w req (Some i) tx pm =
    (case save env saveDate w i (paid b tx payDate pm) of
       Inl e \<Rightarrow> (Inl (catch_any e), w)
     | Inr w' \<Rightarrow>
        (case dispatch (accepts env)
                (confirm_attempts w' u i (paid b tx payDate pm) tx) (outbox w') of
           (False, out) \<Rightarrow> (Inl (catch_any TypeError), w'\<lparr>outbox := out\<rparr>)
         | (True, out) \<Rightarrow> (Inr (paid b tx payDate pm), w'\<lparr>outbox := out\<rparr>)))"
  using assms unfolding confirmPayment_def paid_def Let_def Booking_findById_def by simp

lemma confirmPayment_success:
  assumes "bookings w i = Some b" "\<not> isPaid (payment b)"
    and "\<not> isHost req" "req_user req = Some u" "user b = user_id u"
    and "validate (paid b tx payDate (Some m)) = []"
    and "startDate (eventDetails b) \<le> setMonth_plus3 env saveDate"
    and "parties_found w b" "\<forall>msg. accepts env msg"
  shows "confirmPayment env payDate saveDate w req (Some i) tx (Some m) =
    (Inr (paid b tx payDate (Some m)),
     w\<lparr>bookings := (bookings w)(i \<mapsto> paid b tx payDate (Some m)),
       outbox := outbox w @
         confirm_user_messages i (paid b tx payDate (Some m)) tx (the (users w (user b))) @
         (case venue b of
            None \<Rightarrow> []
          | Some v \<Rightarrow>
             confirm_venue_messages i (paid b tx payDate (Some m)) tx (the (Host_findById w v))) @
         concat (map (\<lambda>service.
            confirm_service_messages i (paid b tx payDate (Some m)) tx service
              (the (Host_findById w (serviceProvider service)))) (services b))\<rparr>)"
proof -
  define b' where "b' = paid b tx payDate (Some m)"
  define w' where "w' = w\<lparr>bookings := (bookings w)(i \<mapsto> b')\<rparr>"
  define ms where "ms =
       confirm_user_messages i b' tx (the (users w (user b))) @
       (case venue b of
          None \<Rightarrow> []
        | Some v \<Rightarrow> confirm_venue_messages i b' tx (the (Host_findById w v))) @
       concat (map (\<lambda>service.
          confirm_service_messages i b' tx service
            (the (Host_findById w (serviceProvider service)))) (services b))"
  have same: "venue b' = venue b" "services b' = services b"
    "startDate (eventDetails b') = startDate (eventDetails b)"
    by (simp_all add: b'_def paid_def)
  have "validate b' = []"
    unfolding b'_def by (rule assms(6))
  then have sv: "save env saveDate w i b' = Inr w'"
    using assms(7) by (simp add: save_def pre_save_def same w'_def)
  have at: "confirm_attempts w' u i b' tx = map Some ms"
    unfolding w'_def ms_def by (rule confirm_attempts_found[OF assms(8,5) same(1,2)])
  have ds: "dispatch (accepts env) (map Some ms) (outbox w') = (True, outbox w @ ms)"
    using assms(9) by (simp add: dispatch_Some w'_def)
  have "confirmPayment env payDate saveDate w req (Some i) tx (Some m) =
      (Inr b', w'\<lparr>outbox := outbox w @ ms\<rparr>)"
    unfolding confirmPayment_unpaid[OF assms(1-5)] b'_def[symmetric]
    by (simp add: sv at ds)
  then show ?thesis
    unfolding w'_def ms_def b'_def .
qed


lemma confirmPayment_paid:
  assumes "bookings w i = Some b" "isPaid (payment b)"
  shows "\<exists>f. confirmPayment env p s w req (Some i) tx pm = (Inl f, w)"
  using assms unfolding confirmPayment_def Booking_findById_def
  by (auto split: option.splits)

lemma confirmPayment_paid_owner:
  assumes "bookings w i = Some b" "isPaid (payment b)"
    and "\<not> isHost req" "req_user req = Some u" "user b = user_id u"
  shows "confirmPayment env p s w req (Some i) tx pm =
    (Inl (Failure 400 (Msg ''Booking is already paid'')), w)"
  using assms unfolding confirmPayment_def Booking_findById_def by simp

lemma stripeWebhook_paid:
  assumes "bookings w i = Some b" "isPaid (payment b)" "metadata_bookingId e = Some i"
  shows "stripeWebhook env p s w (Some e) = (Inr (), w)"
  using assms unfolding stripeWebhook_def Booking_findById_def by simp

lemma save_stores: "save env now w i b = Inr w' \<Longrightarrow> w' = w\<lparr>bookings := (bookings w)(i \<mapsto> b)\<rparr>"
  by (auto simp: save_def split: list.splits sum.splits)

lemma confirmPayment_effect:
  assumes "confirmPayment env p s w req (Some i) tx pm = (r, w1)"
  shows "w1 = w \<or>
    (\<exists>b1. bookings w1 i = Some b1 \<and> isPaid (payment b1) \<and> transactionId (payment b1) = tx \<and>
        users w1 = users w \<and> hosts w1 = hosts w \<and> intents w1 = intents w)"
proof (cases "\<exists>b u. bookings w i = Some b \<and> \<not> isPaid (payment b) \<and> \<not> isHost req \<and>
    req_user req = Some u \<and> user b = user_id u")
  case True
  then obtain b u where h: "bookings w i = Some b" "\<not> isPaid (payment b)" "\<not> isHost req"
    "req_user req = Some u" "user b = user_id u" by blast
  show ?thesis
  proof (cases "save env s w i (paid b tx p pm)")
    case (Inl e)
    with assms show ?thesis unfolding confirmPayment_unpaid[OF h] by simp
  next
    case (Inr w')
    have w': "w' = w\<lparr>bookings := (bookings w)(i \<mapsto> paid b tx p pm)\<rparr>"
      by (rule save_stores[OF Inr])
    obtain ok out where d: "dispatch (accepts env) (confirm_attempts w' u i (paid b tx p pm) tx)
        (outbox w') = (ok, out)" by fastforce
    have "w1 = w'\<lparr>outbox := out\<rparr>"
      using assms unfolding confirmPayment_unpaid[OF h] by (cases ok) (simp_all add: Inr d)
    then show ?thesis by (simp add: w' paid_def)
  qed
next
  case False
  then have "w1 = w"
    using assms unfolding confirmPayment_def Booking_findById_def
    by (auto split: option.splits if_splits)
  then show ?thesis ..
qed

lemma confirmPayment_Inr:
  assumes "confirmPayment env p s w req (Some i) tx pm = (Inr b1, w1)"
  shows "bookings w1 i = Some b1 \<and> isPaid (payment b1) \<and> transactionId (payment b1) = tx"
proof (cases "\<exists>b u. bookings w i = Some b \<and> \<not> isPaid (payment b) \<and> \<not> isHost req \<and>
    req_user req = Some u \<and> user b = user_id u")
  case True
  then obtain b u where h: "bookings w i = Some b" "\<not> isPaid (payment b)" "\<not> isHost req"
    "req_user req = Some u" "user b = user_id u" by blast
  show ?thesis
  proof (cases "save env s w i (paid b tx p pm)")
    case (Inl e)
    with assms show ?thesis unfolding confirmPayment_unpaid[OF h] by simp
  next
    case (Inr w')
    have w': "w' = w\<lparr>bookings := (bookings w)(i \<mapsto> paid b tx p pm)\<rparr>"
      by (rule save_stores[OF Inr])
    obtain ok out where d: "dispatch (accepts env) (confirm_attempts w' u i (paid b tx p pm) tx)
        (outbox w') = (ok, out)" by fastforce
    have "b1 = paid b tx p pm \<and> w1 = w'\<lparr>outbox := out\<rparr>"
      using assms unfolding confirmPayment_unpaid[OF h] by (cases ok) (simp_all add: Inr d)
    then show ?thesis by (simp add: w' paid_def)
  qed
next
  case False
  then have "False"
    using assms unfolding confirmPayment_def Booking_findById_def
    by (auto split: option.splits if_splits)
  then show ?thesis ..
qed

lemma js_and_False: "js_and (js_and (Some (\<not> h)) a) (js_and (js_and (Some h) b) c) \<noteq> Some True"
  by (cases h; cases a; cases b; cases c) (auto simp: js_and_def split: option.splits bool.splits)

lemma parseInt_2: "parseInt (Some ''2'') (Some 10) = Some 2"
  by (simp add: parseInt_def digit_value_def js_whitespace_def)

lemma parseInt_10: "parseInt (Some ''10'') (Some 10) = Some 10"
  by (simp add: parseInt_def digit_value_def js_whitespace_def)

lemma paginate_page2_of_15:
  assumes "length ms = 15"
  shows "paginate (Some ms) (Some ''2'') (Some ''10'') =
    Inr \<lparr>count = 5, pagination_next = None,
         pagination_prev = Some \<lparr>page = 1, limit = 10\<rparr>, data = drop 10 ms\<rparr>"
  using assms by (simp add: paginate_def parseInt_2 parseInt_10 or_default_def Let_def)

lemma paginate_count:
  assumes "paginate m pg lm = Inr r"
  shows "\<exists>ms. m = Some ms \<and> count r = length (data r) \<and> count r \<le> length ms"
  using assms unfolding paginate_def Let_def
  by (auto split: option.splits if_splits)

lemma dispatch_all:
  "\<forall>a \<in> set as. \<exists>m. a = Some m \<and> ok m \<Longrightarrow> \<exists>out'. dispatch ok as out = (True, out')"
proof (induction as arbitrary: out)
  case Nil
  then show ?case by simp
next
  case (Cons a as)
  then obtain m where "a = Some m" "ok m" by auto
  with Cons show ?case by simp
qed

lemma party_all_Some: "d \<noteq> None \<Longrightarrow> \<forall>a \<in> set (party d f). \<exists>m. a = Some m"
  by (auto simp: party_def)

lemma status_attempts_found:
  assumes "parties_found w b" "user b' = user b" "venue b' = venue b" "services b' = services b"
  shows "\<forall>a \<in> set (status_attempts (w\<lparr>bookings := bs\<rparr>) i b' t). \<exists>m. a = Some m"
proof -
  have hf: "\<And>x. Host_findById (w\<lparr>bookings := bs\<rparr>) x = Host_findById w x"
    by (simp add: Host_findById_def)
  have u: "users w (user b) \<noteq> None"
    and v: "\<And>x. venue b = Some x \<Longrightarrow> Host_findById w x \<noteq> None"
    and s: "\<And>x. x \<in> set (services b) \<Longrightarrow> Host_findById w (serviceProvider x) \<noteq> None"
    using assms(1) by (auto simp: parties_found_def list_all_iff)
  show ?thesis
  proof
    fix a
    assume "a \<in> set (status_attempts (w\<lparr>bookings := bs\<rparr>) i b' t)"
    then consider
        (usr) "a \<in> set (party (users w (user b)) (status_user_messages i b' t))"
      | (ven) x where "venue b = Some x"
          "a \<in> set (party (Host_findById w x) (status_venue_messages i b' t))"
      | (svc) x where "x \<in> set (services b)"
          "a \<in> set (party (Host_findById w (serviceProvider x))
             (status_service_messages i b' t x))"
      unfolding status_attempts_def
      by (cases "venue b") (auto simp: hf assms(2,3,4) split: if_splits)
    then show "\<exists>m. a = Some m"
    proof cases
      case usr
      then show ?thesis using party_all_Some[OF u] by blast
    next
      case ven
      then show ?thesis using party_all_Some[OF v] by blast
    next
      case svc
      then show ?thesis using party_all_Some[OF s] by blast
    qed
  qed
qed

lemma updateBookingStatus_invalid:
  assumes "t \<notin> {''confirmed'', ''cancelled'', ''completed''}"
  shows "updateBookingStatus env now w req i (Some t) =
    (Inl (Failure 400
       (Msg ''Please provide a valid status (confirmed, cancelled, or completed)'')), w)"
  using assms by (simp add: updateBookingStatus_def)

lemma updateBookingStatus_rejected:
  assumes "bookings w i = Some b" "t \<in> {''confirmed'', ''cancelled'', ''completed''}"
    and "check_permission req b t = Some f"
  shows "updateBookingStatus env now w req i (Some t) = (Inl f, w)"
proof -
  have v: "(t = [] \<or> t \<notin> set [''confirmed'', ''cancelled'', ''completed'']) = False"
    using assms(2) by auto
  show ?thesis
    unfolding updateBookingStatus_def Let_def
    by (simp only: v assms(1,3) option.case if_False)
qed

lemma validate_status:
  "validate b = [] \<Longrightarrow> t \<in> {''confirmed'', ''cancelled'', ''completed''} \<Longrightarrow>
    validate (b\<lparr>status := t\<rparr>) = []"
  by (auto simp: validate_def status_enum_def split: if_splits option.splits)

lemma updateBookingStatus_permitted:
  assumes "bookings w i = Some b" "t \<in> {''confirmed'', ''cancelled'', ''completed''}"
    and "check_permission req b t = None"
  shows "updateBookingStatus env now w req i (Some t) =
    (case save env now w i (b\<lparr>status := t\<rparr>) of
       Inl e \<Rightarrow> (Inl (catch_any e), w)
     | Inr w' \<Rightarrow>
        (case dispatch (accepts env) (status_attempts w' i (b\<lparr>status := t\<rparr>) t) (outbox w') of
           (False, out) \<Rightarrow> (Inl (catch_any TypeError), w'\<lparr>outbox := out\<rparr>)
         | (True, out) \<Rightarrow> (Inr (b\<lparr>status := t\<rparr>), w'\<lparr>outbox := out\<rparr>)))"
proof -
  have v: "(t = [] \<or> t \<notin> set [''confirmed'', ''cancelled'', ''completed'']) = False"
    using assms(2) by auto
  show ?thesis
    unfolding updateBookingStatus_def Let_def
    by (simp only: v assms(1,3) option.case if_False)
qed

lemma updateBookingStatus_success:
  assumes "bookings w i = Some b" "t \<in> {''confirmed'', ''cancelled'', ''completed''}"
    and "check_permission req b t = None"
    and "validate b = []" "startDate (eventDetails b) \<le> setMonth_plus3 env now"
    and "parties_found w b" "\<forall>msg. accepts env msg"
  shows "\<exists>w'. updateBookingStatus env now w req i (Some t) = (Inr (b\<lparr>status := t\<rparr>), w') \<and>
    bookings w' i = Some (b\<lparr>status := t\<rparr>)"
proof -
  define b' where "b' = b\<lparr>status := t\<rparr>"
  define w' where "w' = w\<lparr>bookings := (bookings w)(i \<mapsto> b')\<rparr>"
  have same: "user b' = user b" "venue b' = venue b" "services b' = services b"
    "startDate (eventDetails b') = startDate (eventDetails b)"
    by (simp_all add: b'_def)
  have "validate b' = []"
    unfolding b'_def by (rule validate_status[OF assms(4,2)])
  then have sv: "save env now w i b' = Inr w'"
    using assms(5) by (simp add: save_def pre_save_def same w'_def)
  have "\<forall>a \<in> set (status_attempts w' i b' t). \<exists>m. a = Some m \<and> accepts env m"
    using status_attempts_found[OF assms(6) same(1,2,3)] assms(7) unfolding w'_def by blast
  then obtain out where
    ds: "dispatch (accepts env) (status_attempts w' i b' t) (outbox w') = (True, out)"
    using dispatch_all by blast
  have "updateBookingStatus env now w req i (Some t) = (Inr b', w'\<lparr>outbox := out\<rparr>)"
    unfolding updateBookingStatus_permitted[OF assms(1,2,3)] b'_def[symmetric]
    by (simp add: sv ds)
  then show ?thesis
    by (auto simp: w'_def b'_def)
qed

lemma check_permission_owner:
  assumes "\<not> isHost req" "req_user req = Some u" "user b = user_id u"
  shows "check_permission req b t =
    (if t \<noteq> ''cancelled'' then Some (Failure 403 (Msg ''Users can only cancel bookings''))
     else None)"
  using assms by (simp add: check_permission_def)

lemma check_permission_user:
  assumes "\<not> isHost req"
  shows "\<exists>f. check_permission req b ''completed'' = Some f \<and> code f \<in> {401, 403, 500}"
  using assms by (auto simp: check_permission_def catch_any_def server_error_def split: option.splits)

lemma check_permission_host:
  assumes "isHost req" "req_host req = Some h"
  shows "check_permission req b t =
    (if references b (host_id h) then None
     else Some (Failure 401 (Msg ''Not authorized to update this booking'')))"
  using assms by (auto simp: check_permission_def references_def Let_def split: option.splits)

lemma pre_save_far:
  "startDate (eventDetails b) > setMonth_plus3 env now \<Longrightarrow>
    pre_save env now b = Inl (Error ''Bookings can only be made up to 3 months in advance'')"
  by (simp add: pre_save_def)

lemma save_far:
  assumes "startDate (eventDetails b) > setMonth_plus3 env now"
  shows "\<exists>e. save env now w i b = Inl e"
  using pre_save_far[OF assms] by (simp add: save_def split: list.splits)

lemma createBooking_far:
  assumes "startDate (body_eventDetails body) > setMonth_plus3 env checkDate"
  shows "\<exists>f. createBooking env checkDate createDate saveDate new_id w req body = (Inl f, w)"
  using assms unfolding createBooking_def Let_def
  by (auto split: option.splits)

lemma createBooking_far_400:
  assumes "startDate (body_eventDetails body) > setMonth_plus3 env checkDate"
    and "\<not> isHost req"
    and "case body_venue body of None \<Rightarrow> True
         | Some v \<Rightarrow> v = [] \<or> Host_findOne w v ''venue'' \<noteq> None"
    and "unresolved_service w (case body_services body of None \<Rightarrow> [] | Some ss \<Rightarrow> ss) = None"
  shows "createBooking env checkDate createDate saveDate new_id w req body =
    (Inl (Failure 400 (Msg ''Bookings can only be made up to 3 months in advance'')), w)"
  using assms unfolding createBooking_def Let_def
  by (auto split: option.splits)

section \<open>The concrete world: auxiliary facts\<close>

lemma validate_demo: "validate demo_booking = []"
  by (simp add: validate_def demo_booking_def serviceType_enum_def eventType_enum_def
      paymentMethod_enum_def status_enum_def)

lemma parties_demo: "parties_found demo_world demo_booking"
  by (simp add: parties_found_def demo_world_def demo_booking_def Host_findById_def
      hall_def cook_def florist_def)

lemma validate_demo_status:
  "s \<in> set status_enum \<Longrightarrow> validate (demo_booking\<lparr>status := s\<rparr>) = []"
  by (simp add: validate_def demo_booking_def serviceType_enum_def eventType_enum_def
      paymentMethod_enum_def)

lemma parties_demo_status:
  "parties_found (world_with_status s) (demo_booking\<lparr>status := s\<rparr>)"
  by (simp add: parties_found_def world_with_status_def demo_world_def demo_booking_def
      Host_findById_def hall_def cook_def florist_def)

lemma demo_status_world:
  "bookings (world_with_status s) ''b1'' = Some (demo_booking\<lparr>status := s\<rparr>)"
  by (simp add: world_with_status_def)

lemma demo_date_ok:
  "startDate (eventDetails (demo_booking\<lparr>status := s\<rparr>)) \<le> setMonth_plus3 demo_env 0"
  by (simp add: demo_booking_def demo_env_def)

lemma demo_accepts: "\<forall>msg. accepts demo_env msg"
  by (simp add: demo_env_def)

lemma demo_references:
  "references (demo_booking\<lparr>status := s\<rparr>) (host_id hall)"
  "\<not> references (demo_booking\<lparr>status := s\<rparr>) (host_id florist)"
  by (simp_all add: references_def demo_booking_def hall_def florist_def)

lemma demo_pending: "demo_booking\<lparr>status := ''pending''\<rparr> = demo_booking"
  by (simp add: demo_booking_def)

section \<open>Confirming a payment\<close>

text \<open>
  Claim C5, as stated, fails on what the messages carry: the SMS that \<^verbatim>\<open>confirmPayment\<close>
  sends to the venue host and to a service provider names the booking and an amount, and
  no transaction id. Here the owning user confirms with the transaction id \<open>tx1\<close>; the
  fourth and the sixth message of the outbox are the SMS to the venue host and to the
  caterer.
\<close>

theorem host_sms_without_transaction_id_counterexample:
  "confirmPayment demo_env 5 6 demo_world (as_user alice) (Some ''b1'') (Some ''tx1'')
     (Some ''upi'') =
     (Inr (paid demo_booking (Some ''tx1'') 5 (Some ''upi'')),
      demo_world
        \<lparr>bookings := (bookings demo_world)
           (''b1'' \<mapsto> paid demo_booking (Some ''tx1'') 5 (Some ''upi'')),
         outbox :=
           [\<lparr>channel = Email, recipient = ''alice@example.com'',
              heading = ''EventO - Payment Confirmation'',
              interpolated = [Id ''b1'', Text ''wedding'', Day 864000000, Day 950400000,
                Num 500, Txn (Some ''tx1'')]\<rparr>,
            \<lparr>channel = SMS, recipient = ''111'',
              heading = ''Payment confirmed for booking ID: '',
              interpolated = [Id ''b1'', Num 500, Txn (Some ''tx1'')]\<rparr>,
            \<lparr>channel = Email, recipient = ''hall@example.com'',
              heading = ''EventO - Booking Payment Received'',
              interpolated = [Id ''b1'', Text ''wedding'', Day 864000000, Day 950400000,
                Num 500, Txn (Some ''tx1'')]\<rparr>,
            \<lparr>channel = SMS, recipient = ''221'',
              heading = ''Payment received for booking ID: '',
              interpolated = [Id ''b1'', Num 500]\<rparr>,
            \<lparr>channel = Email, recipient = ''cook@example.com'',
              heading = ''EventO - Service Payment Received'',
              interpolated = [Text ''catering'', Id ''b1'', Text ''wedding'', Day 864000000,
                Day 950400000, NumOpt (Some 300), Txn (Some ''tx1'')]\<rparr>,
            \<lparr>channel = SMS, recipient = ''222'',
              heading = ''Payment received for service booking ID: '',
              interpolated = [Id ''b1'', NumOpt (Some 300)]\<rparr>]\<rparr>) \<and>
   Txn (Some ''tx1'') \<notin> set [Id ''b1'', Num (500::int)] \<and>
   Txn (Some ''tx1'') \<notin> set [Id ''b1'', NumOpt (Some (300::int))]"
proof -
  have h: "bookings demo_world ''b1'' = Some demo_booking" "\<not> isPaid (payment demo_booking)"
    "\<not> isHost (as_user alice)" "req_user (as_user alice) = Some alice"
    "user demo_booking = user_id alice" "''upi'' \<in> set paymentMethod_enum"
    "startDate (eventDetails demo_booking) \<le> setMonth_plus3 demo_env 6"
    "\<forall>msg. accepts demo_env msg"
    by (simp_all add: demo_world_def demo_booking_def as_user_def alice_def
        paymentMethod_enum_def demo_env_def)
  have look: "users demo_world (user demo_booking) = Some alice"
    "venue demo_booking = Some ''h1''"
    "services demo_booking =
      [\<lparr>serviceProvider = ''h2'', serviceType = ''catering'', price = Some 300\<rparr>]"
    "Host_findById demo_world ''h1'' = Some hall"
    "Host_findById demo_world ''h2'' = Some cook"
    "outbox demo_world = []"
    by (simp_all add: demo_world_def demo_booking_def Host_findById_def hall_def cook_def)
  have vals: "eventType (eventDetails (paid demo_booking (Some ''tx1'') 5 (Some ''upi''))) =
      ''wedding''"
    "startDate (eventDetails (paid demo_booking (Some ''tx1'') 5 (Some ''upi''))) = 864000000"
    "endDate (eventDetails (paid demo_booking (Some ''tx1'') 5 (Some ''upi''))) = 950400000"
    "advanceAmount (payment (paid demo_booking (Some ''tx1'') 5 (Some ''upi''))) = 500"
    by (simp_all add: paid_def demo_booking_def)
  show ?thesis
    using confirmPayment_success
      [OF h(1-5) validate_paid[OF validate_demo h(6)] h(7) parties_demo h(8),
        of 5 "Some ''tx1''"]
    by (simp add: look vals confirm_user_messages_def confirm_venue_messages_def
        confirm_service_messages_def alice_def hall_def cook_def)
qed

text \<open>
  Claim C5, amended. A user who does not own the booking is answered 401, the owning
  user of a booking that is already paid is answered 400, and in both cases nothing
  changes. When the owning user confirms the payment of an unpaid booking,
  \<^verbatim>\<open>confirmPayment\<close> answers with the booking rewritten by \<open>paid\<close>: the paid flag set, the
  supplied transaction id, the payment date and the payment method recorded, the status
  \<open>confirmed\<close>. That booking is stored, and the outbox grows by exactly these messages,
  in this order: an email to the address and an SMS to the number of the owning user,
  both with the advance amount and the transaction id; when the booking has a venue, an
  email to the address of the venue host with the advance amount and the transaction id,
  and an SMS to its number with the advance amount only; for each service, an email to
  the address of its provider with the price of the service (which the schema lets be
  absent) and the transaction id, and an SMS to its number with that price only.

  The run gets that far when the supplied payment method is one of the schema's, the
  stored booking passes the schema's validators and the date guard of the save hook at
  that moment, the documents of all parties are in the store, and the transports accept
  the messages.
\<close>

theorem confirmPayment_marks_paid_and_notifies:
  assumes "bookings w i = Some b" "\<not> isPaid (payment b)"
    and "\<not> isHost req" "req_user req = Some u" "user b = user_id u"
    and "validate b = []" "m \<in> set paymentMethod_enum"
    and "startDate (eventDetails b) \<le> setMonth_plus3 env saveDate"
    and "parties_found w b" "\<forall>msg. accepts env msg"
  shows "\<exists>b' owner sent.
    b' = paid b tx payDate (Some m) \<and>
    users w (user b) = Some owner \<and>
    sent =
      [\<lparr>channel = Email, recipient = user_email owner,
         heading = ''EventO - Payment Confirmation'',
         interpolated = [Id i, Text (eventType (eventDetails b)),
           Day (startDate (eventDetails b)), Day (endDate (eventDetails b)),
           Num (advanceAmount (payment b)), Txn tx]\<rparr>,
       \<lparr>channel = SMS, recipient = user_mobileNumber owner,
         heading = ''Payment confirmed for booking ID: '',
         interpolated = [Id i, Num (advanceAmount (payment b)), Txn tx]\<rparr>] @
      (case venue b of
         None \<Rightarrow> []
       | Some v \<Rightarrow>
          [\<lparr>channel = Email, recipient = host_email (the (Host_findById w v)),
             heading = ''EventO - Booking Payment Received'',
             interpolated = [Id i, Text (eventType (eventDetails b)),
               Day (startDate (eventDetails b)), Day (endDate (eventDetails b)),
               Num (advanceAmount (payment b)), Txn tx]\<rparr>,
           \<lparr>channel = SMS, recipient = host_mobileNumber (the (Host_findById w v)),
             heading = ''Payment received for booking ID: '',
             interpolated = [Id i, Num (advanceAmount (payment b))]\<rparr>]) @
      concat (map (\<lambda>service.
          [\<lparr>channel = Email,
             recipient = host_email (the (Host_findById w (serviceProvider service))),
             heading = ''EventO - Service Payment Received'',
             interpolated = [Text (serviceType service), Id i,
               Text (eventType (eventDetails b)),
               Day (startDate (eventDetails b)), Day (endDate (eventDetails b)),
               NumOpt (price service), Txn tx]\<rparr>,
           \<lparr>channel = SMS,
             recipient = host_mobileNumber (the (Host_findById w (serviceProvider service))),
             heading = ''Payment received for service booking ID: '',
             interpolated = [Id i, NumOpt (price service)]\<rparr>]) (services b)) \<and>
    confirmPayment env payDate saveDate w req (Some i) tx (Some m) =
      (Inr b', w\<lparr>bookings := (bookings w)(i \<mapsto> b'), outbox := outbox w @ sent\<rparr>) \<and>
    isPaid (payment b') \<and> transactionId (payment b') = tx \<and>
    paymentDate (payment b') = Some payDate \<and> paymentMethod (payment b') = Some m \<and>
    status b' = ''confirmed'' \<and>
    (\<forall>other u'. \<not> isHost other \<and> req_user other = Some u' \<and> user b \<noteq> user_id u' \<longrightarrow>
       confirmPayment env payDate saveDate w other (Some i) tx (Some m) =
         (Inl (Failure 401 (Msg ''Not authorized to confirm payment for this booking'')), w)) \<and>
    (\<forall>w2 b2. bookings w2 i = Some b2 \<and> isPaid (payment b2) \<and> user b2 = user_id u \<longrightarrow>
       confirmPayment env payDate saveDate w2 req (Some i) tx (Some m) =
         (Inl (Failure 400 (Msg ''Booking is already paid'')), w2))"
proof -
  define b' where "b' = paid b tx payDate (Some m)"
  obtain owner where owner: "users w (user b) = Some owner"
    using assms(9) by (auto simp: parties_found_def)
  have same: "eventDetails b' = eventDetails b"
    "advanceAmount (payment b') = advanceAmount (payment b)"
    by (simp_all add: b'_def paid_def)
  have run: "confirmPayment env payDate saveDate w req (Some i) tx (Some m) =
      (Inr b', w\<lparr>bookings := (bookings w)(i \<mapsto> b'), outbox := outbox w @
         confirm_user_messages i b' tx (the (users w (user b))) @
         (case venue b of
            None \<Rightarrow> []
          | Some v \<Rightarrow> confirm_venue_messages i b' tx (the (Host_findById w v))) @
         concat (map (\<lambda>service.
            confirm_service_messages i b' tx service
              (the (Host_findById w (serviceProvider service)))) (services b))\<rparr>)"
    unfolding b'_def
    by (rule confirmPayment_success[OF assms(1-5) validate_paid[OF assms(6,7)] assms(8-10)])
  have usr: "confirm_user_messages i b' tx (the (users w (user b))) =
      [\<lparr>channel = Email, recipient = user_email owner,
         heading = ''EventO - Payment Confirmation'',
         interpolated = [Id i, Text (eventType (eventDetails b)),
           Day (startDate (eventDetails b)), Day (endDate (eventDetails b)),
           Num (advanceAmount (payment b)), Txn tx]\<rparr>,
       \<lparr>channel = SMS, recipient = user_mobileNumber owner,
         heading = ''Payment confirmed for booking ID: '',
         interpolated = [Id i, Num (advanceAmount (payment b)), Txn tx]\<rparr>]"
    by (simp add: confirm_user_messages_def owner same)
  have ven: "confirm_venue_messages i b' tx h =
      [\<lparr>channel = Email, recipient = host_email h,
         heading = ''EventO - Booking Payment Received'',
         interpolated = [Id i, Text (eventType (eventDetails b)),
           Day (startDate (eventDetails b)), Day (endDate (eventDetails b)),
           Num (advanceAmount (payment b)), Txn tx]\<rparr>,
       \<lparr>channel = SMS, recipient = host_mobileNumber h,
         heading = ''Payment received for booking ID: '',
         interpolated = [Id i, Num (advanceAmount (payment b))]\<rparr>]" for h
    by (simp add: confirm_venue_messages_def same)
  have svc: "confirm_service_messages i b' tx service h =
      [\<lparr>channel = Email, recipient = host_email h,
         heading = ''EventO - Service Payment Received'',
         interpolated = [Text (serviceType service), Id i,
           Text (eventType (eventDetails b)),
           Day (startDate (eventDetails b)), Day (endDate (eventDetails b)),
           NumOpt (price service), Txn tx]\<rparr>,
       \<lparr>channel = SMS, recipient = host_mobileNumber h,
         heading = ''Payment received for service booking ID: '',
         interpolated = [Id i, NumOpt (price service)]\<rparr>]" for service h
    by (simp add: confirm_service_messages_def same)
  have fields: "isPaid (payment b')" "transactionId (payment b') = tx"
    "paymentDate (payment b') = Some payDate" "paymentMethod (payment b') = Some m"
    "status b' = ''confirmed''"
    by (simp_all add: b'_def paid_def)
  have other: "\<forall>other u'. \<not> isHost other \<and> req_user other = Some u' \<and> user b \<noteq> user_id u' \<longrightarrow>
       confirmPayment env payDate saveDate w other (Some i) tx (Some m) =
         (Inl (Failure 401 (Msg ''Not authorized to confirm payment for this booking'')), w)"
    using assms(1) by (simp add: confirmPayment_def Booking_findById_def)
  have again: "\<forall>w2 b2. bookings w2 i = Some b2 \<and> isPaid (payment b2) \<and> user b2 = user_id u \<longrightarrow>
       confirmPayment env payDate saveDate w2 req (Some i) tx (Some m) =
         (Inl (Failure 400 (Msg ''Booking is already paid'')), w2)"
    using confirmPayment_paid_owner[OF _ _ assms(3,4)] by blast
  show ?thesis
    using b'_def owner run[unfolded usr ven svc] fields other again by blast
qed

theorem confirmPayment_marks_paid_and_notifies_witness:
  "bookings demo_world ''b1'' = Some demo_booking \<and> \<not> isPaid (payment demo_booking) \<and>
   \<not> isHost (as_user alice) \<and> req_user (as_user alice) = Some alice \<and>
   user demo_booking = user_id alice \<and> validate demo_booking = [] \<and>
   ''upi'' \<in> set paymentMethod_enum \<and>
   startDate (eventDetails demo_booking) \<le> setMonth_plus3 demo_env 6 \<and>
   parties_found demo_world demo_booking \<and> (\<forall>msg. accepts demo_env msg) \<and>
   fst (confirmPayment demo_env 5 6 demo_world (as_user alice) (Some ''b1'') (Some ''tx1'')
         (Some ''upi'')) = Inr (paid demo_booking (Some ''tx1'') 5 (Some ''upi'')) \<and>
   length (outbox (snd (confirmPayment demo_env 5 6 demo_world (as_user alice) (Some ''b1'')
         (Some ''tx1'') (Some ''upi'')))) = 6"
proof -
  have h: "bookings demo_world ''b1'' = Some demo_booking" "\<not> isPaid (payment demo_booking)"
    "\<not> isHost (as_user alice)" "req_user (as_user alice) = Some alice"
    "user demo_booking = user_id alice" "''upi'' \<in> set paymentMethod_enum"
    "startDate (eventDetails demo_booking) \<le> setMonth_plus3 demo_env 6"
    "\<forall>msg. accepts demo_env msg"
    by (simp_all add: demo_world_def demo_booking_def as_user_def alice_def
        paymentMethod_enum_def demo_env_def)
  have o: "outbox demo_world = []" "venue demo_booking = Some ''h1''"
    "services demo_booking =
      [\<lparr>serviceProvider = ''h2'', serviceType = ''catering'', price = Some 300\<rparr>]"
    by (simp_all add: demo_world_def demo_booking_def)
  from confirmPayment_marks_paid_and_notifies
    [OF h(1-5) validate_demo h(6,7) parties_demo h(8), of "Some ''tx1''" 5]
  show ?thesis
    using h validate_demo parties_demo by (auto simp: o)
qed

text \<open>
  Claim C6. \<^verbatim>\<open>confirmPayment\<close> never reads the status of the booking. Whatever status an
  unpaid booking has, terminal ones included, a confirmation by the owning user goes
  through under the conditions of the previous theorem, and the stored booking then has
  the status \<open>confirmed\<close>: a cancelled or completed booking leaves its terminal state.
\<close>

theorem confirmPayment_ignores_status:
  assumes "bookings w i = Some b" "\<not> isPaid (payment b)"
    and "\<not> isHost req" "req_user req = Some u" "user b = user_id u"
    and "validate b = []" "m \<in> set paymentMethod_enum"
    and "startDate (eventDetails b) \<le> setMonth_plus3 env saveDate"
    and "parties_found w b" "\<forall>msg. accepts env msg"
  shows "\<exists>b' w'.
    confirmPayment env payDate saveDate w req (Some i) tx (Some m) = (Inr b', w') \<and>
    bookings w' i = Some b' \<and> status b' = ''confirmed'' \<and>
    status b \<in> set status_enum \<and>
    (status b = ''cancelled'' \<or> status b = ''completed'' \<longrightarrow> status b' \<noteq> status b)"
proof -
  have st: "status b \<in> set status_enum"
    using assms(6) by (simp add: validate_def split: if_splits)
  have c: "status (paid b tx payDate (Some m)) = ''confirmed''"
    by (simp add: paid_def)
  show ?thesis
    using confirmPayment_success[OF assms(1-5) validate_paid[OF assms(6,7)] assms(8-10)] st c
    by auto
qed

theorem confirmPayment_ignores_status_witness:
  "bookings (world_with_status ''cancelled'') ''b1'' = Some (demo_booking\<lparr>status := ''cancelled''\<rparr>) \<and>
   \<not> isPaid (payment (demo_booking\<lparr>status := ''cancelled''\<rparr>)) \<and>
   \<not> isHost (as_user alice) \<and> req_user (as_user alice) = Some alice \<and>
   user (demo_booking\<lparr>status := ''cancelled''\<rparr>) = user_id alice \<and>
   validate (demo_booking\<lparr>status := ''cancelled''\<rparr>) = [] \<and>
   ''upi'' \<in> set paymentMethod_enum \<and>
   startDate (eventDetails (demo_booking\<lparr>status := ''cancelled''\<rparr>)) \<le> setMonth_plus3 demo_env 6 \<and>
   parties_found (world_with_status ''cancelled'') (demo_booking\<lparr>status := ''cancelled''\<rparr>) \<and>
   (\<forall>msg. accepts demo_env msg) \<and>
   (\<exists>b' w'. confirmPayment demo_env 5 6 (world_with_status ''cancelled'') (as_user alice)
        (Some ''b1'') (Some ''tx1'') (Some ''upi'') = (Inr b', w') \<and>
      bookings w' ''b1'' = Some b' \<and> status b' = ''confirmed'')"
proof -
  have v: "validate (demo_booking\<lparr>status := ''cancelled''\<rparr>) = []"
    by (rule validate_demo_status) (simp add: status_enum_def)
  have h: "bookings (world_with_status ''cancelled'') ''b1'' = Some (demo_booking\<lparr>status := ''cancelled''\<rparr>)"
    "\<not> isPaid (payment (demo_booking\<lparr>status := ''cancelled''\<rparr>))"
    "\<not> isHost (as_user alice)" "req_user (as_user alice) = Some alice"
    "user (demo_booking\<lparr>status := ''cancelled''\<rparr>) = user_id alice"
    "''upi'' \<in> set paymentMethod_enum"
    "startDate (eventDetails (demo_booking\<lparr>status := ''cancelled''\<rparr>)) \<le> setMonth_plus3 demo_env 6"
    "\<forall>msg. accepts demo_env msg"
    by (simp_all add: world_with_status_def demo_world_def demo_booking_def as_user_def alice_def
        paymentMethod_enum_def demo_env_def)
  from confirmPayment_ignores_status
    [OF h(1-5) v h(6,7) parties_demo_status h(8), of 5 "Some ''tx1''"]
  show ?thesis
    using h v parties_demo_status[of "''cancelled''"] by auto
qed


text \<open>
  Claim C2. A booking that is marked paid stays as it is. A further call of
  \<^verbatim>\<open>confirmPayment\<close> for it fails and leaves the whole world unchanged (for the owning
  user the answer is the 400 \<open>Booking is already paid\<close>), so the recorded transaction id,
  the payment fields and the status are those of the first confirmation and nothing is
  sent; \<^verbatim>\<open>stripeWebhook\<close> acknowledges an event for it and changes nothing either. Of two
  successive calls of \<^verbatim>\<open>confirmPayment\<close> for one booking at most one changes the world,
  hence at most one sends the notifications; and after a successful first call the second
  one fails and the stored transaction id is the first one.
\<close>

theorem payment_marked_paid_at_most_once:
  "(bookings w i = Some b \<and> isPaid (payment b) \<longrightarrow>
      (\<exists>f. confirmPayment env p s w req (Some i) tx pm = (Inl f, w)) \<and>
      (\<not> isHost req \<and> (\<exists>u. req_user req = Some u \<and> user b = user_id u) \<longrightarrow>
         confirmPayment env p s w req (Some i) tx pm =
           (Inl (Failure 400 (Msg ''Booking is already paid'')), w)) \<and>
      (metadata_bookingId e = Some i \<longrightarrow> stripeWebhook env p s w (Some e) = (Inr (), w))) \<and>
   (confirmPayment env p1 s1 w0 req1 (Some i) tx1 pm1 = (r1, w1) \<and>
    confirmPayment env p2 s2 w1 req2 (Some i) tx2 pm2 = (r2, w2) \<longrightarrow>
      (w1 = w0 \<or> w2 = w1) \<and>
      (\<forall>b1. r1 = Inr b1 \<longrightarrow>
         (\<exists>f. r2 = Inl f) \<and> w2 = w1 \<and> bookings w2 i = Some b1 \<and>
         transactionId (payment b1) = tx1))"
proof (intro conjI impI allI)
  assume h: "bookings w i = Some b \<and> isPaid (payment b)"
  then show "\<exists>f. confirmPayment env p s w req (Some i) tx pm = (Inl f, w)"
    using confirmPayment_paid by blast
  {
    assume "\<not> isHost req \<and> (\<exists>u. req_user req = Some u \<and> user b = user_id u)"
    with h show "confirmPayment env p s w req (Some i) tx pm =
        (Inl (Failure 400 (Msg ''Booking is already paid'')), w)"
      using confirmPayment_paid_owner by blast
  }
  {
    assume "metadata_bookingId e = Some i"
    with h show "stripeWebhook env p s w (Some e) = (Inr (), w)"
      using stripeWebhook_paid by blast
  }
next
  assume c: "confirmPayment env p1 s1 w0 req1 (Some i) tx1 pm1 = (r1, w1) \<and>
    confirmPayment env p2 s2 w1 req2 (Some i) tx2 pm2 = (r2, w2)"
  show "w1 = w0 \<or> w2 = w1"
  proof (cases "w1 = w0")
    case False
    then obtain b1 where "bookings w1 i = Some b1" "isPaid (payment b1)"
      using confirmPayment_effect c by blast
    then show ?thesis
      using confirmPayment_paid[of w1 i b1 env p2 s2 req2 tx2 pm2] c by auto
  qed simp
  fix b1
  assume "r1 = Inr b1"
  then have b1: "bookings w1 i = Some b1" "isPaid (payment b1)" "transactionId (payment b1) = tx1"
    using confirmPayment_Inr c by blast+
  then have "\<exists>f. r2 = Inl f \<and> w2 = w1"
    using confirmPayment_paid[of w1 i b1 env p2 s2 req2 tx2 pm2] c by auto
  then show "\<exists>f. r2 = Inl f" "w2 = w1" "bookings w2 i = Some b1" "transactionId (payment b1) = tx1"
    using b1 by auto
qed

theorem payment_marked_paid_at_most_once_witness:
  "\<exists>b1 w1.
     confirmPayment demo_env 5 6 demo_world (as_user alice) (Some ''b1'') (Some ''tx1'')
       (Some ''upi'') = (Inr b1, w1) \<and>
     bookings w1 ''b1'' = Some b1 \<and> isPaid (payment b1) \<and>
     \<not> isHost (as_user alice) \<and>
     (\<exists>u. req_user (as_user alice) = Some u \<and> user b1 = user_id u) \<and>
     metadata_bookingId \<lparr>event_type = ''payment_intent.succeeded'', paymentIntent_id = ''pi_2'',
        metadata_bookingId = Some ''b1''\<rparr> = Some ''b1'' \<and>
     confirmPayment demo_env 7 8 w1 (as_user alice) (Some ''b1'') (Some ''tx2'') (Some ''upi'') =
       (Inl (Failure 400 (Msg ''Booking is already paid'')), w1) \<and>
     stripeWebhook demo_env 7 8 w1
       (Some \<lparr>event_type = ''payment_intent.succeeded'', paymentIntent_id = ''pi_2'',
          metadata_bookingId = Some ''b1''\<rparr>) = (Inr (), w1) \<and>
     transactionId (payment b1) = Some ''tx1''"
proof -
  have h: "bookings demo_world ''b1'' = Some demo_booking" "\<not> isPaid (payment demo_booking)"
    "\<not> isHost (as_user alice)" "req_user (as_user alice) = Some alice"
    "user demo_booking = user_id alice" "''upi'' \<in> set paymentMethod_enum"
    "startDate (eventDetails demo_booking) \<le> setMonth_plus3 demo_env 6"
    "\<forall>msg. accepts demo_env msg"
    by (simp_all add: demo_world_def demo_booking_def as_user_def alice_def
        paymentMethod_enum_def demo_env_def)
  obtain b1 w1 where first: "confirmPayment demo_env 5 6 demo_world (as_user alice) (Some ''b1'')
       (Some ''tx1'') (Some ''upi'') = (Inr b1, w1)" and b1: "b1 = paid demo_booking (Some ''tx1'') 5 (Some ''upi'')"
    using confirmPayment_success[OF h(1-5) validate_paid[OF validate_demo h(6)] h(7) parties_demo h(8)]
    by blast
  have stored: "bookings w1 ''b1'' = Some b1" "isPaid (payment b1)"
    "transactionId (payment b1) = Some ''tx1''"
    using confirmPayment_Inr[OF first] by simp_all
  have own: "\<exists>u. req_user (as_user alice) = Some u \<and> user b1 = user_id u"
    by (simp add: b1 paid_def as_user_def demo_booking_def alice_def)
  from payment_marked_paid_at_most_once
    [of w1 "''b1''" b1 demo_env 7 8 "as_user alice" "Some ''tx2''" "Some ''upi''"
      "\<lparr>event_type = ''payment_intent.succeeded'', paymentIntent_id = ''pi_2'',
        metadata_bookingId = Some ''b1''\<rparr>"]
  show ?thesis
    using first stored own h(3) by auto
qed


section \<open>Reading a booking and its payment\<close>

text \<open>
  Claim C3. In \<^verbatim>\<open>getBooking\<close> and in \<^verbatim>\<open>getPaymentDetails\<close> the condition that guards the
  401 answer is a conjunction whose left operand needs a caller that is not a host and
  whose right operand needs a caller that is a host, so it is never true. For an existing
  booking neither handler answers 401; the only failure left is the 500 of a thrown
  TypeError, which takes a request whose principal document is missing or, in
  \<^verbatim>\<open>getBooking\<close> for a user caller, a booking whose owner is no longer in the store.
  Every host, and every user whose document the request carries, gets the payment
  sub-document, and gets the populated booking (for a user caller: when the owner of the
  booking is in the store), whether or not the caller owns the booking or is referenced
  by it. The last part says the same of the request that \<^verbatim>\<open>protect\<close> builds from a
  verified token.
\<close>

theorem read_never_denied:
  assumes "bookings w i = Some b"
  shows "getBooking_denied env req (populate w b) \<noteq> Some True \<and>
    getPaymentDetails_denied req b \<noteq> Some True \<and>
    (\<forall>f. getBooking env w req i = Inl f \<longrightarrow> f = server_error) \<and>
    (\<forall>f. getPaymentDetails w req i = Inl f \<longrightarrow> f = server_error) \<and>
    (isHost req \<or> (req_user req \<noteq> None \<and> users w (user b) \<noteq> None) \<longrightarrow>
       getBooking env w req i = Inr (populate w b)) \<and>
    (isHost req \<or> req_user req \<noteq> None \<longrightarrow> getPaymentDetails w req i = Inr (payment b)) \<and>
    (\<forall>p h r. protect w (Some (p, h)) = Inr r \<and> (h \<or> users w p \<noteq> None) \<longrightarrow>
       getPaymentDetails w r i = Inr (payment b) \<and>
       (h \<or> users w (user b) \<noteq> None \<longrightarrow> getBooking env w r i = Inr (populate w b)))"
proof -
  have d1: "getBooking_denied env req (populate w b) \<noteq> Some True"
    unfolding getBooking_denied_def by (rule js_and_False)
  have d2: "getPaymentDetails_denied req b \<noteq> Some True"
    unfolding getPaymentDetails_denied_def by (rule js_and_False)
  have e1: "\<forall>f. getBooking env w req i = Inl f \<longrightarrow> f = server_error"
    using d1 assms
    by (auto simp: getBooking_def Let_def catch_any_def split: option.splits bool.splits)
  have e2: "\<forall>f. getPaymentDetails w req i = Inl f \<longrightarrow> f = server_error"
    using d2 assms
    by (auto simp: getPaymentDetails_def catch_any_def split: option.splits bool.splits)
  have g1: "getBooking env w req i = Inr (populate w b)"
    if "isHost req \<or> (req_user req \<noteq> None \<and> users w (user b) \<noteq> None)"
  proof -
    have "getBooking_denied env req (populate w b) = Some False"
      using that unfolding getBooking_denied_def
      by (auto simp: js_and_def populate_def split: option.splits bool.splits)
    then show ?thesis using assms by (simp add: getBooking_def)
  qed
  have g2: "getPaymentDetails w req i = Inr (payment b)" if "isHost req \<or> req_user req \<noteq> None"
  proof -
    have "getPaymentDetails_denied req b = Some False"
      using that unfolding getPaymentDetails_denied_def
      by (auto simp: js_and_def split: option.splits bool.splits)
    then show ?thesis using assms by (simp add: getPaymentDetails_def)
  qed
  have pr: "getPaymentDetails w r i = Inr (payment b) \<and>
       (h \<or> users w (user b) \<noteq> None \<longrightarrow> getBooking env w r i = Inr (populate w b))"
    if "protect w (Some (p, h)) = Inr r \<and> (h \<or> users w p \<noteq> None)" for p h r
  proof (cases h)
    case True
    with that have r: "r = \<lparr>isHost = True, req_user = None, req_host = Host_findById w p\<rparr>"
      by (simp add: protect_def)
    have a: "getBooking_denied env r (populate w b) = Some False"
      "getPaymentDetails_denied r b = Some False"
      by (simp_all add: r getBooking_denied_def getPaymentDetails_denied_def js_and_def)
    show ?thesis using a assms by (simp add: getBooking_def getPaymentDetails_def)
  next
    case False
    with that obtain u where u: "users w p = Some u"
      and r: "r = \<lparr>isHost = False, req_user = Some u, req_host = None\<rparr>"
      by (auto simp: protect_def)
    have a: "getPaymentDetails_denied r b = Some False"
      "users w (user b) \<noteq> None \<Longrightarrow> getBooking_denied env r (populate w b) = Some False"
      by (auto simp: r getBooking_denied_def getPaymentDetails_denied_def js_and_def populate_def
          split: bool.splits)
    show ?thesis using a assms False by (simp add: getBooking_def getPaymentDetails_def)
  qed
  show ?thesis using d1 d2 e1 e2 g1 g2 pr by blast
qed

theorem read_never_denied_witness:
  "bookings demo_world ''b1'' = Some demo_booking \<and>
   isHost (as_host florist) \<and>
   getBooking demo_env demo_world (as_host florist) ''b1'' =
     Inr (populate demo_world demo_booking) \<and>
   getPaymentDetails demo_world (as_host florist) ''b1'' = Inr (payment demo_booking) \<and>
   req_user (as_user (alice\<lparr>user_id := ''u9''\<rparr>)) \<noteq> None \<and>
   users demo_world (user demo_booking) \<noteq> None \<and>
   getBooking demo_env demo_world (as_user (alice\<lparr>user_id := ''u9''\<rparr>)) ''b1'' =
     Inr (populate demo_world demo_booking) \<and>
   getPaymentDetails demo_world (as_user (alice\<lparr>user_id := ''u9''\<rparr>)) ''b1'' =
     Inr (payment demo_booking)"
proof -
  have h: "bookings demo_world ''b1'' = Some demo_booking" "isHost (as_host florist)"
    "req_user (as_user (alice\<lparr>user_id := ''u9''\<rparr>)) \<noteq> None"
    "users demo_world (user demo_booking) \<noteq> None"
    by (simp_all add: demo_world_def demo_booking_def as_host_def as_user_def)
  from read_never_denied[OF h(1), of demo_env "as_host florist"]
    read_never_denied[OF h(1), of demo_env "as_user (alice\<lparr>user_id := ''u9''\<rparr>)"] h
  show ?thesis by blast
qed


section \<open>Creating a payment intent\<close>

text \<open>
  Claim C9. \<^verbatim>\<open>createPaymentIntent\<close> returns a client secret only for a booking that is
  not paid and a requested method that is \<open>online_payment\<close>, and the intent it has then
  created at the provider carries \<^verbatim>\<open>Math.round(advanceAmount * 100)\<close> of that booking as its
  amount, in the currency \<open>inr\<close>. A failing call creates no intent; a call for a paid
  booking or with any other method fails; and the owning user's call for an unpaid booking
  with \<open>online_payment\<close> succeeds whenever the provider answers. The product and the
  rounding are those of the JavaScript Number, which the model leaves open.
\<close>

theorem createPaymentIntent_guards_and_amount:
  "(createPaymentIntent env w req bookingId pm = (Inr secret, w') \<longrightarrow>
      (\<exists>i b u. bookingId = Some i \<and> bookings w i = Some b \<and> \<not> isPaid (payment b) \<and>
         pm = Some ''online_payment'' \<and> req_user req = Some u \<and>
         w' = w\<lparr>intents := intents w @
           [\<lparr>amount = Math_round env (js_times env (advanceAmount (payment b)) (js_100 env)),
             currency = ''inr'', meta_bookingId = i, meta_userId = user_id u\<rparr>]\<rparr>)) \<and>
   (createPaymentIntent env w req bookingId pm = (Inl f, w') \<longrightarrow> w' = w) \<and>
   (bookings w i = Some b \<and> (isPaid (payment b) \<or> pm \<noteq> Some ''online_payment'') \<longrightarrow>
      (\<exists>f. createPaymentIntent env w req (Some i) pm = (Inl f, w))) \<and>
   (bookings w i = Some b \<and> \<not> isHost req \<and> req_user req = Some u \<and> user b = user_id u \<and>
    \<not> isPaid (payment b) \<and>
    stripe_create env
      \<lparr>amount = Math_round env (js_times env (advanceAmount (payment b)) (js_100 env)),
       currency = ''inr'', meta_bookingId = i, meta_userId = user_id u\<rparr> = Some secret \<longrightarrow>
      createPaymentIntent env w req (Some i) (Some ''online_payment'') =
        (Inr secret, w\<lparr>intents := intents w @
           [\<lparr>amount = Math_round env (js_times env (advanceAmount (payment b)) (js_100 env)),
             currency = ''inr'', meta_bookingId = i, meta_userId = user_id u\<rparr>]\<rparr>))"
proof (intro conjI impI)
  assume "createPaymentIntent env w req bookingId pm = (Inr secret, w')"
  then show "\<exists>i b u. bookingId = Some i \<and> bookings w i = Some b \<and> \<not> isPaid (payment b) \<and>
         pm = Some ''online_payment'' \<and> req_user req = Some u \<and>
         w' = w\<lparr>intents := intents w @
           [\<lparr>amount = Math_round env (js_times env (advanceAmount (payment b)) (js_100 env)),
             currency = ''inr'', meta_bookingId = i, meta_userId = user_id u\<rparr>]\<rparr>"
    unfolding createPaymentIntent_def Booking_findById_def Let_def
    by (auto split: if_splits option.splits)
next
  assume "createPaymentIntent env w req bookingId pm = (Inl f, w')"
  then show "w' = w"
    unfolding createPaymentIntent_def Booking_findById_def Let_def
    by (auto split: if_splits option.splits)
next
  assume "bookings w i = Some b \<and> (isPaid (payment b) \<or> pm \<noteq> Some ''online_payment'')"
  then show "\<exists>f. createPaymentIntent env w req (Some i) pm = (Inl f, w)"
    unfolding createPaymentIntent_def Booking_findById_def Let_def
    by (auto split: if_splits option.splits)
next
  assume "bookings w i = Some b \<and> \<not> isHost req \<and> req_user req = Some u \<and> user b = user_id u \<and>
    \<not> isPaid (payment b) \<and>
    stripe_create env
      \<lparr>amount = Math_round env (js_times env (advanceAmount (payment b)) (js_100 env)),
       currency = ''inr'', meta_bookingId = i, meta_userId = user_id u\<rparr> = Some secret"
  then show "createPaymentIntent env w req (Some i) (Some ''online_payment'') =
        (Inr secret, w\<lparr>intents := intents w @
           [\<lparr>amount = Math_round env (js_times env (advanceAmount (payment b)) (js_100 env)),
             currency = ''inr'', meta_bookingId = i, meta_userId = user_id u\<rparr>]\<rparr>)"
    unfolding createPaymentIntent_def Booking_findById_def Let_def
    by simp
qed

theorem createPaymentIntent_guards_and_amount_witness:
  "bookings demo_world ''b1'' = Some demo_booking \<and> \<not> isHost (as_user alice) \<and>
   req_user (as_user alice) = Some alice \<and> user demo_booking = user_id alice \<and>
   \<not> isPaid (payment demo_booking) \<and>
   stripe_create demo_env
     \<lparr>amount = Math_round demo_env
        (js_times demo_env (advanceAmount (payment demo_booking)) (js_100 demo_env)),
      currency = ''inr'', meta_bookingId = ''b1'', meta_userId = user_id alice\<rparr> = Some ''secret'' \<and>
   createPaymentIntent demo_env demo_world (as_user alice) (Some ''b1'') (Some ''online_payment'') =
     (Inr ''secret'', demo_world\<lparr>intents :=
        [\<lparr>amount = 50000, currency = ''inr'', meta_bookingId = ''b1'', meta_userId = ''u1''\<rparr>]\<rparr>) \<and>
   (\<exists>f. createPaymentIntent demo_env demo_world (as_user alice) (Some ''b1'') (Some ''upi'') =
     (Inl f, demo_world))"
proof -
  have h: "bookings demo_world ''b1'' = Some demo_booking" "\<not> isHost (as_user alice)"
    "req_user (as_user alice) = Some alice" "user demo_booking = user_id alice"
    "\<not> isPaid (payment demo_booking)"
    "stripe_create demo_env
     \<lparr>amount = Math_round demo_env
        (js_times demo_env (advanceAmount (payment demo_booking)) (js_100 demo_env)),
      currency = ''inr'', meta_bookingId = ''b1'', meta_userId = user_id alice\<rparr> = Some ''secret''"
    by (simp_all add: demo_world_def demo_booking_def as_user_def alice_def demo_env_def)
  have a: "Math_round demo_env
        (js_times demo_env (advanceAmount (payment demo_booking)) (js_100 demo_env)) = 50000"
    "user_id alice = ''u1''" "intents demo_world = []"
    by (simp_all add: demo_env_def demo_booking_def alice_def demo_world_def)
  have n: "Some ''upi'' \<noteq> Some ''online_payment''" by simp
  from createPaymentIntent_guards_and_amount
    [where env = demo_env and w = demo_world and req = "as_user alice" and i = "''b1''"
       and b = demo_booking and u = alice and secret = "''secret''" and pm = "Some ''upi''"]
  show ?thesis
    using h n by (simp add: a)
qed


section \<open>Listing hosts, page by page\<close>

text \<open>
  Claim C10, as stated, fails in its last part: the \<open>count\<close> of a listing response is the
  number of documents on the returned page, not the number of matching hosts. With
  fifteen matching venues, page 2 of 10 reports the count 5.
\<close>

theorem listing_count_counterexample:
  "length fifteen_hosts = 15 \<and>
   getVenues found_fifteen page2_limit10 =
     Inr \<lparr>count = 5, pagination_next = None,
          pagination_prev = Some \<lparr>page = 1, limit = 10\<rparr>, data = drop 10 fifteen_hosts\<rparr>"
proof -
  have l: "length fifteen_hosts = 15" by (simp add: fifteen_hosts_def)
  show ?thesis
    using l paginate_page2_of_15[OF l]
    by (simp add: getVenues_def found_fifteen_def page2_limit10_def)
qed

text \<open>
  Claim C10, amended. Over fifteen matching hosts, a request for page 2 with limit 10 gets
  five documents (the last five), a \<open>prev\<close> descriptor for page 1 and no \<open>next\<close>
  descriptor, from \<^verbatim>\<open>getVenues\<close> and from \<^verbatim>\<open>getServiceProviders\<close> alike. Every listing
  response carries, beside the two descriptors, the number of documents on the page it
  returns, which is at most the number of matching hosts.
\<close>

theorem listing_page_two_of_fifteen:
  "(param_page q = Some ''2'' \<and> param_limit q = Some ''10'' \<and> length ms = 15 \<longrightarrow>
      (found (venues_query q) = Some ms \<longrightarrow>
         getVenues found q =
           Inr \<lparr>count = 5, pagination_next = None,
                pagination_prev = Some \<lparr>page = 1, limit = 10\<rparr>, data = drop 10 ms\<rparr>) \<and>
      (found (providers_query q) = Some ms \<longrightarrow>
         getServiceProviders found q =
           Inr \<lparr>count = 5, pagination_next = None,
                pagination_prev = Some \<lparr>page = 1, limit = 10\<rparr>, data = drop 10 ms\<rparr>)) \<and>
   (getVenues found q = Inr r \<longrightarrow>
      (\<exists>ms. found (venues_query q) = Some ms \<and> count r = length (data r) \<and>
         count r \<le> length ms)) \<and>
   (getServiceProviders found q = Inr r \<longrightarrow>
      (\<exists>ms. found (providers_query q) = Some ms \<and> count r = length (data r) \<and>
         count r \<le> length ms))"
  using paginate_page2_of_15[of ms] paginate_count[of _ "param_page q" "param_limit q" r]
  by (auto simp: getVenues_def getServiceProviders_def)

theorem listing_page_two_of_fifteen_witness:
  "param_page page2_limit10 = Some ''2'' \<and> param_limit page2_limit10 = Some ''10'' \<and>
   length fifteen_hosts = 15 \<and>
   found_fifteen (venues_query page2_limit10) = Some fifteen_hosts \<and>
   found_fifteen (providers_query page2_limit10) = Some fifteen_hosts \<and>
   getVenues found_fifteen page2_limit10 =
     Inr \<lparr>count = 5, pagination_next = None,
          pagination_prev = Some \<lparr>page = 1, limit = 10\<rparr>, data = drop 10 fifteen_hosts\<rparr> \<and>
   getServiceProviders found_fifteen page2_limit10 =
     Inr \<lparr>count = 5, pagination_next = None,
          pagination_prev = Some \<lparr>page = 1, limit = 10\<rparr>, data = drop 10 fifteen_hosts\<rparr>"
proof -
  have h: "param_page page2_limit10 = Some ''2''" "param_limit page2_limit10 = Some ''10''"
    "length fifteen_hosts = 15"
    "found_fifteen (venues_query page2_limit10) = Some fifteen_hosts"
    "found_fifteen (providers_query page2_limit10) = Some fifteen_hosts"
    by (simp_all add: page2_limit10_def fifteen_hosts_def found_fifteen_def)
  from listing_page_two_of_fifteen
    [where q = page2_limit10 and ms = fifteen_hosts and found = found_fifteen]
  show ?thesis using h by blast
qed


section \<open>Status updates\<close>

text \<open>
  Claim C1, as stated, fails: \<^verbatim>\<open>updateBookingStatus\<close> never reads the current status of
  the booking. The host of the venue of a cancelled booking asks for \<open>completed\<close>; the
  request is accepted and the stored status becomes \<open>completed\<close>.
\<close>

theorem completed_from_cancelled_counterexample:
  "bookings (world_with_status ''cancelled'') ''b1'' =
     Some (demo_booking\<lparr>status := ''cancelled''\<rparr>) \<and>
   fst (updateBookingStatus demo_env 0 (world_with_status ''cancelled'') (as_host hall) ''b1''
     (Some ''completed'')) = Inr (demo_booking\<lparr>status := ''completed''\<rparr>) \<and>
   bookings (snd (updateBookingStatus demo_env 0 (world_with_status ''cancelled'') (as_host hall)
     ''b1'' (Some ''completed''))) ''b1'' = Some (demo_booking\<lparr>status := ''completed''\<rparr>)"
proof -
  have p: "check_permission (as_host hall) (demo_booking\<lparr>status := ''cancelled''\<rparr>)
      ''completed'' = None"
    using check_permission_host[of "as_host hall" hall
        "demo_booking\<lparr>status := ''cancelled''\<rparr>" "''completed''"] demo_references(1)
    by (simp add: as_host_def)
  have v: "validate (demo_booking\<lparr>status := ''cancelled''\<rparr>) = []"
    by (rule validate_demo_status) (simp add: status_enum_def)
  from updateBookingStatus_success[OF demo_status_world _ p v demo_date_ok parties_demo_status
      demo_accepts]
  show ?thesis
    by (auto simp: demo_status_world)
qed

text \<open>
  Claim C1, amended. For a booking in a terminal state, a request for \<open>completed\<close> fails
  and leaves the world unchanged when it comes from a user (403 for the owning user, 401
  for any other user, 500 when the request carries no user document) or from a host that
  the booking does not reference (401). A request from a host that the booking references
  is accepted whatever the current status is: when the stored booking passes the
  validators and the date guard of the save hook, the documents of all parties are in the
  store and the transports accept the messages, the status becomes \<open>completed\<close>.
\<close>

theorem terminal_booking_completed_request:
  assumes "bookings w i = Some b" "status b = ''cancelled'' \<or> status b = ''completed''"
  shows "(\<not> isHost req \<longrightarrow>
      (\<exists>f. updateBookingStatus env now w req i (Some ''completed'') = (Inl f, w) \<and>
         code f \<in> {401, 403, 500}) \<and>
      (\<forall>u. req_user req = Some u \<longrightarrow>
         updateBookingStatus env now w req i (Some ''completed'') =
           (Inl (Failure (if user b = user_id u then 403 else 401)
              (Msg (if user b = user_id u then ''Users can only cancel bookings''
                    else ''Not authorized to update this booking''))), w))) \<and>
    (\<forall>h. isHost req \<and> req_host req = Some h \<and> \<not> references b (host_id h) \<longrightarrow>
       updateBookingStatus env now w req i (Some ''completed'') =
         (Inl (Failure 401 (Msg ''Not authorized to update this booking'')), w)) \<and>
    (\<forall>h. isHost req \<and> req_host req = Some h \<and> references b (host_id h) \<and>
       validate b = [] \<and> startDate (eventDetails b) \<le> setMonth_plus3 env now \<and>
       parties_found w b \<and> (\<forall>msg. accepts env msg) \<longrightarrow>
       (\<exists>w'. updateBookingStatus env now w req i (Some ''completed'') =
           (Inr (b\<lparr>status := ''completed''\<rparr>), w') \<and>
         bookings w' i = Some (b\<lparr>status := ''completed''\<rparr>)))"
proof (intro conjI impI allI)
  have t: "''completed'' \<in> {''confirmed'', ''cancelled'', ''completed''}" by simp
  {
    assume nh: "\<not> isHost req"
    from check_permission_user[OF nh, of b] obtain f where
      f: "check_permission req b ''completed'' = Some f" "code f \<in> {401, 403, 500}" by blast
    show "\<exists>f. updateBookingStatus env now w req i (Some ''completed'') = (Inl f, w) \<and>
         code f \<in> {401, 403, 500}"
      using updateBookingStatus_rejected[OF assms(1) t f(1)] f(2) by blast
    fix u
    assume u: "req_user req = Some u"
    have "check_permission req b ''completed'' =
        Some (Failure (if user b = user_id u then 403 else 401)
              (Msg (if user b = user_id u then ''Users can only cancel bookings''
                    else ''Not authorized to update this booking'')))"
      using nh u by (simp add: check_permission_def)
    then show "updateBookingStatus env now w req i (Some ''completed'') =
           (Inl (Failure (if user b = user_id u then 403 else 401)
              (Msg (if user b = user_id u then ''Users can only cancel bookings''
                    else ''Not authorized to update this booking''))), w)"
      by (rule updateBookingStatus_rejected[OF assms(1) t])
  }
  {
    fix h
    assume "isHost req \<and> req_host req = Some h \<and> \<not> references b (host_id h)"
    then have "check_permission req b ''completed'' =
        Some (Failure 401 (Msg ''Not authorized to update this booking''))"
      using check_permission_host[of req h b] by simp
    then show "updateBookingStatus env now w req i (Some ''completed'') =
         (Inl (Failure 401 (Msg ''Not authorized to update this booking'')), w)"
      by (rule updateBookingStatus_rejected[OF assms(1) t])
  }
  {
    fix h
    assume a: "isHost req \<and> req_host req = Some h \<and> references b (host_id h) \<and>
       validate b = [] \<and> startDate (eventDetails b) \<le> setMonth_plus3 env now \<and>
       parties_found w b \<and> (\<forall>msg. accepts env msg)"
    then have p: "check_permission req b ''completed'' = None"
      using check_permission_host[of req h b] by simp
    show "\<exists>w'. updateBookingStatus env now w req i (Some ''completed'') =
           (Inr (b\<lparr>status := ''completed''\<rparr>), w') \<and>
         bookings w' i = Some (b\<lparr>status := ''completed''\<rparr>)"
      using updateBookingStatus_success[OF assms(1) t p] a by blast
  }
qed


theorem terminal_booking_completed_request_witness:
  "bookings (world_with_status ''cancelled'') ''b1'' =
     Some (demo_booking\<lparr>status := ''cancelled''\<rparr>) \<and>
   (status (demo_booking\<lparr>status := ''cancelled''\<rparr>) = ''cancelled'' \<or>
    status (demo_booking\<lparr>status := ''cancelled''\<rparr>) = ''completed'') \<and>
   \<not> isHost (as_user alice) \<and> req_user (as_user alice) = Some alice \<and>
   updateBookingStatus demo_env 0 (world_with_status ''cancelled'') (as_user alice) ''b1''
     (Some ''completed'') =
     (Inl (Failure 403 (Msg ''Users can only cancel bookings'')), world_with_status ''cancelled'') \<and>
   isHost (as_host florist) \<and> req_host (as_host florist) = Some florist \<and>
   \<not> references (demo_booking\<lparr>status := ''cancelled''\<rparr>) (host_id florist) \<and>
   updateBookingStatus demo_env 0 (world_with_status ''cancelled'') (as_host florist) ''b1''
     (Some ''completed'') =
     (Inl (Failure 401 (Msg ''Not authorized to update this booking'')),
      world_with_status ''cancelled'')"
proof -
  have h: "status (demo_booking\<lparr>status := ''cancelled''\<rparr>) = ''cancelled'' \<or>
    status (demo_booking\<lparr>status := ''cancelled''\<rparr>) = ''completed''"
    "\<not> isHost (as_user alice)" "req_user (as_user alice) = Some alice"
    "isHost (as_host florist)" "req_host (as_host florist) = Some florist"
    "user (demo_booking\<lparr>status := ''cancelled''\<rparr>) = user_id alice"
    by (simp_all add: as_user_def as_host_def demo_booking_def alice_def)
  from terminal_booking_completed_request[OF demo_status_world h(1), of "as_user alice" demo_env 0]
    terminal_booking_completed_request[OF demo_status_world h(1), of "as_host florist" demo_env 0]
  show ?thesis
    using h demo_references(2)[of "''cancelled''"] demo_status_world[of "''cancelled''"] by auto
qed

text \<open>
  Claim C7, as stated, fails for a target that is not one of \<open>confirmed\<close>, \<open>cancelled\<close>,
  \<open>completed\<close>: the check of the target comes first, and the owning user who asks for
  \<open>pending\<close> gets the 400 of an invalid status, not the 403.
\<close>

theorem owner_pending_target_counterexample:
  "bookings demo_world ''b1'' = Some demo_booking \<and> user demo_booking = user_id alice \<and>
   updateBookingStatus demo_env 0 demo_world (as_user alice) ''b1'' (Some ''pending'') =
     (Inl (Failure 400
        (Msg ''Please provide a valid status (confirmed, cancelled, or completed)'')),
      demo_world)"
proof -
  have "''pending'' \<notin> {''confirmed'', ''cancelled'', ''completed''}" by simp
  from updateBookingStatus_invalid[OF this]
  show ?thesis by (simp add: demo_world_def demo_booking_def alice_def)
qed

text \<open>
  Claim C7, amended. A status-update request by the owning user fails with 403 when it
  targets \<open>confirmed\<close> or \<open>completed\<close>, and with 400 when it targets anything else but
  \<open>cancelled\<close>; in both cases the world is unchanged. When it targets \<open>cancelled\<close> it
  succeeds and the stored status becomes \<open>cancelled\<close>, provided the stored booking passes
  the validators and the date guard of the save hook, the documents of all parties are in
  the store and the transports accept the messages.
\<close>

theorem owner_status_requests:
  assumes "bookings w i = Some b" "\<not> isHost req" "req_user req = Some u" "user b = user_id u"
  shows "(t = ''confirmed'' \<or> t = ''completed'' \<longrightarrow>
      updateBookingStatus env now w req i (Some t) =
        (Inl (Failure 403 (Msg ''Users can only cancel bookings'')), w)) \<and>
    (t \<notin> {''confirmed'', ''cancelled'', ''completed''} \<longrightarrow>
      updateBookingStatus env now w req i (Some t) =
        (Inl (Failure 400
           (Msg ''Please provide a valid status (confirmed, cancelled, or completed)'')), w)) \<and>
    (validate b = [] \<and> startDate (eventDetails b) \<le> setMonth_plus3 env now \<and>
     parties_found w b \<and> (\<forall>msg. accepts env msg) \<longrightarrow>
      (\<exists>w'. updateBookingStatus env now w req i (Some ''cancelled'') =
          (Inr (b\<lparr>status := ''cancelled''\<rparr>), w') \<and>
        bookings w' i = Some (b\<lparr>status := ''cancelled''\<rparr>)))"
proof (intro conjI impI)
  assume t: "t = ''confirmed'' \<or> t = ''completed''"
  then have "check_permission req b t = Some (Failure 403 (Msg ''Users can only cancel bookings''))"
    using check_permission_owner[OF assms(2,3,4), of t] by auto
  moreover have "t \<in> {''confirmed'', ''cancelled'', ''completed''}" using t by auto
  ultimately show "updateBookingStatus env now w req i (Some t) =
        (Inl (Failure 403 (Msg ''Users can only cancel bookings'')), w)"
    using updateBookingStatus_rejected[OF assms(1)] by blast
next
  assume "t \<notin> {''confirmed'', ''cancelled'', ''completed''}"
  then show "updateBookingStatus env now w req i (Some t) =
        (Inl (Failure 400
           (Msg ''Please provide a valid status (confirmed, cancelled, or completed)'')), w)"
    by (rule updateBookingStatus_invalid)
next
  assume a: "validate b = [] \<and> startDate (eventDetails b) \<le> setMonth_plus3 env now \<and>
     parties_found w b \<and> (\<forall>msg. accepts env msg)"
  have p: "check_permission req b ''cancelled'' = None"
    using check_permission_owner[OF assms(2,3,4), of "''cancelled''"] by simp
  have t: "''cancelled'' \<in> {''confirmed'', ''cancelled'', ''completed''}" by simp
  show "\<exists>w'. updateBookingStatus env now w req i (Some ''cancelled'') =
          (Inr (b\<lparr>status := ''cancelled''\<rparr>), w') \<and>
        bookings w' i = Some (b\<lparr>status := ''cancelled''\<rparr>)"
    using updateBookingStatus_success[OF assms(1) t p] a by blast
qed

theorem owner_status_requests_witness:
  "bookings demo_world ''b1'' = Some demo_booking \<and> \<not> isHost (as_user alice) \<and>
   req_user (as_user alice) = Some alice \<and> user demo_booking = user_id alice \<and>
   updateBookingStatus demo_env 0 demo_world (as_user alice) ''b1'' (Some ''confirmed'') =
     (Inl (Failure 403 (Msg ''Users can only cancel bookings'')), demo_world) \<and>
   validate demo_booking = [] \<and>
   startDate (eventDetails demo_booking) \<le> setMonth_plus3 demo_env 0 \<and>
   parties_found demo_world demo_booking \<and> (\<forall>msg. accepts demo_env msg) \<and>
   (\<exists>w'. updateBookingStatus demo_env 0 demo_world (as_user alice) ''b1'' (Some ''cancelled'') =
       (Inr (demo_booking\<lparr>status := ''cancelled''\<rparr>), w') \<and>
     bookings w' ''b1'' = Some (demo_booking\<lparr>status := ''cancelled''\<rparr>))"
proof -
  have h: "bookings demo_world ''b1'' = Some demo_booking" "\<not> isHost (as_user alice)"
    "req_user (as_user alice) = Some alice" "user demo_booking = user_id alice"
    "startDate (eventDetails demo_booking) \<le> setMonth_plus3 demo_env 0"
    by (simp_all add: demo_world_def demo_booking_def as_user_def alice_def demo_env_def)
  from owner_status_requests[OF h(1-4), of "''confirmed''" demo_env 0]
  show ?thesis
    using h validate_demo parties_demo demo_accepts by auto
qed

text \<open>
  Claim C8, as stated, fails on the answer: a host that the booking does not reference
  gets the status code 401 for \<open>confirmed\<close>, not 403, and the 400 of an invalid status
  for \<open>pending\<close>.
\<close>

theorem unreferenced_host_counterexample:
  "isHost (as_host florist) \<and> req_host (as_host florist) = Some florist \<and>
   \<not> references demo_booking (host_id florist) \<and>
   bookings demo_world ''b1'' = Some demo_booking \<and>
   updateBookingStatus demo_env 0 demo_world (as_host florist) ''b1'' (Some ''confirmed'') =
     (Inl (Failure 401 (Msg ''Not authorized to update this booking'')), demo_world) \<and>
   updateBookingStatus demo_env 0 demo_world (as_host florist) ''b1'' (Some ''pending'') =
     (Inl (Failure 400
        (Msg ''Please provide a valid status (confirmed, cancelled, or completed)'')),
      demo_world)"
proof -
  have h: "isHost (as_host florist)" "req_host (as_host florist) = Some florist"
    "bookings demo_world ''b1'' = Some demo_booking"
    by (simp_all add: as_host_def demo_world_def)
  have r: "\<not> references demo_booking (host_id florist)"
    using demo_references(2)[of "''pending''"] by (simp add: demo_pending)
  have p: "check_permission (as_host florist) demo_booking ''confirmed'' =
      Some (Failure 401 (Msg ''Not authorized to update this booking''))"
    using check_permission_host[OF h(1,2), of demo_booking "''confirmed''"] r by simp
  have t: "''confirmed'' \<in> {''confirmed'', ''cancelled'', ''completed''}"
    "''pending'' \<notin> {''confirmed'', ''cancelled'', ''completed''}" by simp_all
  show ?thesis
    using h r updateBookingStatus_rejected[OF h(3) t(1) p] updateBookingStatus_invalid[OF t(2)]
    by simp
qed

text \<open>
  Claim C8, amended. A status-update request by a host that is neither the venue of the
  booking nor the provider of one of its services fails and leaves the world unchanged:
  with 401 \<open>Not authorized to update this booking\<close> for each of the targets \<open>confirmed\<close>,
  \<open>cancelled\<close> and \<open>completed\<close>, with 400 for any other target.
\<close>

theorem unreferenced_host_status_requests:
  assumes "bookings w i = Some b" "isHost req" "req_host req = Some h"
    and "\<not> references b (host_id h)"
  shows "(t \<in> {''confirmed'', ''cancelled'', ''completed''} \<longrightarrow>
      updateBookingStatus env now w req i (Some t) =
        (Inl (Failure 401 (Msg ''Not authorized to update this booking'')), w)) \<and>
    (t \<notin> {''confirmed'', ''cancelled'', ''completed''} \<longrightarrow>
      updateBookingStatus env now w req i (Some t) =
        (Inl (Failure 400
           (Msg ''Please provide a valid status (confirmed, cancelled, or completed)'')), w))"
proof (intro conjI impI)
  assume t: "t \<in> {''confirmed'', ''cancelled'', ''completed''}"
  have "check_permission req b t =
      Some (Failure 401 (Msg ''Not authorized to update this booking''))"
    using check_permission_host[OF assms(2,3), of b t] assms(4) by simp
  then show "updateBookingStatus env now w req i (Some t) =
        (Inl (Failure 401 (Msg ''Not authorized to update this booking'')), w)"
    by (rule updateBookingStatus_rejected[OF assms(1) t])
next
  assume "t \<notin> {''confirmed'', ''cancelled'', ''completed''}"
  then show "updateBookingStatus env now w req i (Some t) =
        (Inl (Failure 400
           (Msg ''Please provide a valid status (confirmed, cancelled, or completed)'')), w)"
    by (rule updateBookingStatus_invalid)
qed

theorem unreferenced_host_status_requests_witness:
  "bookings demo_world ''b1'' = Some demo_booking \<and> isHost (as_host florist) \<and>
   req_host (as_host florist) = Some florist \<and>
   \<not> references demo_booking (host_id florist) \<and>
   ''cancelled'' \<in> {''confirmed'', ''cancelled'', ''completed''} \<and>
   updateBookingStatus demo_env 0 demo_world (as_host florist) ''b1'' (Some ''cancelled'') =
     (Inl (Failure 401 (Msg ''Not authorized to update this booking'')), demo_world)"
proof -
  have h: "bookings demo_world ''b1'' = Some demo_booking" "isHost (as_host florist)"
    "req_host (as_host florist) = Some florist"
    by (simp_all add: as_host_def demo_world_def)
  have r: "\<not> references demo_booking (host_id florist)"
    using demo_references(2)[of "''pending''"] by (simp add: demo_pending)
  from unreferenced_host_status_requests[OF h r, of "''cancelled''" demo_env 0]
  show ?thesis
    using h r by simp
qed


section \<open>The three-month window\<close>

text \<open>
  Claim C4, as stated, fails in its last part: what the save hook raises for a start date
  beyond the window is a plain \<^verbatim>\<open>Error\<close>, not a validation error, and the \<^verbatim>\<open>catch\<close> of
  \<^verbatim>\<open>createBooking\<close>, which answers 400 to a \<^verbatim>\<open>ValidationError\<close> only, answers 500 to it.
  The booking below passes every validator and starts one millisecond too late.
\<close>

theorem save_guard_error_counterexample:
  "startDate (eventDetails far_booking) > setMonth_plus3 demo_env 0 \<and>
   validate far_booking = [] \<and>
   pre_save demo_env 0 far_booking =
     Inl (Error ''Bookings can only be made up to 3 months in advance'') \<and>
   save demo_env 0 demo_world ''b2'' far_booking =
     Inl (Error ''Bookings can only be made up to 3 months in advance'') \<and>
   catch_createBooking (Error ''Bookings can only be made up to 3 months in advance'') =
     Failure 500 (Msg ''Server Error'')"
proof -
  have f: "startDate (eventDetails far_booking) > setMonth_plus3 demo_env 0"
    by (simp add: far_booking_def demo_env_def)
  have v: "validate far_booking = []"
    by (simp add: far_booking_def validate_def demo_booking_def serviceType_enum_def
        eventType_enum_def paymentMethod_enum_def status_enum_def)
  show ?thesis
    using f v pre_save_far[OF f]
    by (simp add: save_def catch_createBooking_def server_error_def)
qed

text \<open>
  Claim C4, amended. A creation request whose start date exceeds the clock reading of the
  handler's check plus three months fails, and the world is unchanged: no booking is
  stored and nothing is sent. The failure is the 400 of the handler's own check whenever
  the request comes from a user and its venue and service providers resolve; a host's
  request, or an unresolved venue or provider, is answered by the earlier 403 or 404.
  Independently of the handler, the save hook rejects a booking whose start date exceeds
  its own clock reading plus three months, and \<^verbatim>\<open>save\<close> then writes nothing.
\<close>

theorem far_start_date_rejected:
  "(startDate (body_eventDetails body) > setMonth_plus3 env checkDate \<longrightarrow>
      (\<exists>f. createBooking env checkDate createDate saveDate new_id w req body = (Inl f, w)) \<and>
      (\<not> isHost req \<and>
       (case body_venue body of None \<Rightarrow> True
        | Some v \<Rightarrow> v = [] \<or> Host_findOne w v ''venue'' \<noteq> None) \<and>
       unresolved_service w (case body_services body of None \<Rightarrow> [] | Some ss \<Rightarrow> ss) = None \<longrightarrow>
         createBooking env checkDate createDate saveDate new_id w req body =
           (Inl (Failure 400 (Msg ''Bookings can only be made up to 3 months in advance'')), w))) \<and>
   (startDate (eventDetails b) > setMonth_plus3 env now \<longrightarrow>
      (\<exists>e. pre_save env now b = Inl e) \<and> (\<exists>e. save env now w i b = Inl e))"
  using createBooking_far[of env checkDate body createDate saveDate new_id w req]
    createBooking_far_400[of env checkDate body req w createDate saveDate new_id]
    pre_save_far[of env now b] save_far[of env now b w i]
  by auto

theorem far_start_date_rejected_witness:
  "startDate (body_eventDetails far_body) > setMonth_plus3 demo_env 0 \<and>
   \<not> isHost (as_user alice) \<and>
   (case body_venue far_body of None \<Rightarrow> True
    | Some v \<Rightarrow> v = [] \<or> Host_findOne demo_world v ''venue'' \<noteq> None) \<and>
   unresolved_service demo_world
     (case body_services far_body of None \<Rightarrow> [] | Some ss \<Rightarrow> ss) = None \<and>
   createBooking demo_env 0 0 0 ''b2'' demo_world (as_user alice) far_body =
     (Inl (Failure 400 (Msg ''Bookings can only be made up to 3 months in advance'')),
      demo_world) \<and>
   startDate (eventDetails far_booking) > setMonth_plus3 demo_env 0 \<and>
   (\<exists>e. pre_save demo_env 0 far_booking = Inl e) \<and>
   (\<exists>e. save demo_env 0 demo_world ''b2'' far_booking = Inl e)"
proof -
  have h: "startDate (body_eventDetails far_body) > setMonth_plus3 demo_env 0"
    "\<not> isHost (as_user alice)"
    "case body_venue far_body of None \<Rightarrow> True
      | Some v \<Rightarrow> v = [] \<or> Host_findOne demo_world v ''venue'' \<noteq> None"
    "unresolved_service demo_world
      (case body_services far_body of None \<Rightarrow> [] | Some ss \<Rightarrow> ss) = None"
    "startDate (eventDetails far_booking) > setMonth_plus3 demo_env 0"
    by (simp_all add: far_body_def far_booking_def demo_env_def as_user_def Host_findOne_def
        demo_world_def hall_def)
  from far_start_date_rejected
    [where body = far_body and env = demo_env and checkDate = 0 and createDate = 0
       and saveDate = 0 and new_id = "''b2''" and w = demo_world and req = "as_user alice"
       and b = far_booking and now = 0 and i = "''b2''"]
  show ?thesis
    using h by blast
qed


end
